theory Spec2Isabelle
  imports Main
begin

section \<open>Shared data: error codes, JSON values, character case\<close>

text \<open>
  The plugin reports every failure by throwing \<open>Orthanc::OrthancException\<close> with an error
  code. The model returns the code as the left injection of a sum.
\<close>

datatype ErrorCode =
    ErrorCode_InternalError
  | ErrorCode_NetworkProtocol
  | ErrorCode_BadFileFormat
  | ErrorCode_UnknownResource
  | ErrorCode_BadRequest
  | ErrorCode_NotEnoughMemory

text \<open>
  \<open>Json::Value\<close> of jsoncpp. An object is kept as an association list; a member is looked up
  with \<open>map_of\<close>, so the first binding of a key is the one that is seen.
\<close>

datatype json =
    nullValue
  | booleanValue bool
  | intValue int
  | stringValue string
  | arrayValue "json list"
  | objectValue "(string \<times> json) list"

datatype ValueType = NullT | BooleanT | IntT | StringT | ArrayT | ObjectT

fun type_of_json :: "json \<Rightarrow> ValueType" where
  "type_of_json nullValue = NullT"
| "type_of_json (booleanValue _) = BooleanT"
| "type_of_json (intValue _) = IntT"
| "type_of_json (stringValue _) = StringT"
| "type_of_json (arrayValue _) = ArrayT"
| "type_of_json (objectValue _) = ObjectT"

fun isMember :: "json \<Rightarrow> string \<Rightarrow> bool" where
  "isMember (objectValue kvs) k = (map_of kvs k \<noteq> None)"
| "isMember _ k = False"

text \<open>\<open>value[key]\<close> on a constant value: the member, or null when there is none.\<close>

fun member :: "json \<Rightarrow> string \<Rightarrow> json" where
  "member (objectValue kvs) k = (case map_of kvs k of Some v \<Rightarrow> v | None \<Rightarrow> nullValue)"
| "member _ k = nullValue"

fun json_size :: "json \<Rightarrow> nat" where
  "json_size (arrayValue xs) = length xs"
| "json_size (objectValue kvs) = length kvs"
| "json_size _ = 0"

text \<open>\<open>Orthanc::Toolbox::ToUpperCase\<close> and \<open>ToLowerCase\<close>: the C functions on each byte.\<close>

definition toupper :: "char \<Rightarrow> char" where
  "toupper c = (let n = (of_char c :: nat) in if 97 \<le> n \<and> n \<le> 122 then char_of (n - 32) else c)"

definition tolower :: "char \<Rightarrow> char" where
  "tolower c = (let n = (of_char c :: nat) in if 65 \<le> n \<and> n \<le> 90 then char_of (n + 32) else c)"

definition ToUpperCase :: "string \<Rightarrow> string" where
  "ToUpperCase s = map toupper s"

definition ToLowerCase :: "string \<Rightarrow> string" where
  "ToLowerCase s = map tolower s"

definition CRLF :: string where
  "CRLF = [CHR 0x0D, CHR 0x0A]"

text \<open>
  The part of a \<open>gdcm::DataSet\<close> that the plugin builds: data elements with a byte value or
  a sequence of items, each item a nested data set. \<open>DataSet::Insert\<close> keeps the element that
  is already there when the tag is present.
\<close>

datatype Tag =
    DICOM_TAG_STUDY_INSTANCE_UID
  | DICOM_TAG_SERIES_INSTANCE_UID
  | DICOM_TAG_SOP_CLASS_UID
  | DICOM_TAG_SOP_INSTANCE_UID
  | DICOM_TAG_REFERENCED_SOP_CLASS_UID
  | DICOM_TAG_REFERENCED_SOP_INSTANCE_UID
  | DICOM_TAG_WARNING_REASON
  | DICOM_TAG_FAILURE_REASON
  | DICOM_TAG_RETRIEVE_URL
  | DICOM_TAG_FAILED_SOP_SEQUENCE
  | DICOM_TAG_REFERENCED_SOP_SEQUENCE

datatype VR = VR_UI | VR_US | VR_UT | VR_SQ

datatype DataElement =
    ByteValue VR string
  | SequenceOfItems "(Tag \<times> DataElement) list list"

type_synonym DataSet = "(Tag \<times> DataElement) list"

definition Insert :: "DataSet \<Rightarrow> Tag \<Rightarrow> DataElement \<Rightarrow> DataSet" where
  "Insert dataset tag element =
     (if map_of dataset tag = None then dataset @ [(tag, element)] else dataset)"

text \<open>
  The HTTP request handed to a REST callback (\<open>groupsCount\<close> is the length of \<open>groups\<close>, and
  the header names are in lower case), and what the callback sends back.
\<close>

datatype HttpMethod =
    OrthancPluginHttpMethod_Get
  | OrthancPluginHttpMethod_Post
  | OrthancPluginHttpMethod_Put
  | OrthancPluginHttpMethod_Delete

record HttpRequest =
  request_method :: HttpMethod
  groups :: "string list"
  headers :: "string \<rightharpoonup> string"
  request_body :: string

datatype RestOutput =
    SendMethodNotAllowed string
  | SendHttpStatusCode nat
  | AnswerBuffer string string
  | AnswerDicom DataSet bool

section \<open>STOW-RS client (DicomWebClient.cpp)\<close>

subsection \<open>GetSequenceSize\<close>

text \<open>
  The result is \<open>Inl\<close> for a thrown exception, \<open>Inr None\<close> for \<open>return false\<close> and
  \<open>Inr (Some n)\<close> for \<open>return true\<close> with \<open>result = n\<close>.
\<close>

definition GetSequenceSize :: "json \<Rightarrow> string \<Rightarrow> bool \<Rightarrow> ErrorCode + nat option" where
  "GetSequenceSize answer tag isMandatory =
     (let upper = ToUpperCase tag;
          lower = ToLowerCase tag;
          found = (if isMember answer upper then Some (member answer upper)
                   else if isMember answer lower then Some (member answer lower)
                   else None)
      in case found of
           None \<Rightarrow> if isMandatory then Inl ErrorCode_NetworkProtocol else Inr None
         | Some v \<Rightarrow>
             if type_of_json v \<noteq> ObjectT \<or>
                \<not> isMember v ''Value'' \<or>
                type_of_json (member v ''Value'') \<noteq> ArrayT
             then Inl ErrorCode_NetworkProtocol
             else Inr (Some (json_size (member v ''Value''))))"

subsection \<open>AddInstance\<close>

fun asString :: "json \<Rightarrow> string" where
  "asString (stringValue s) = s"
| "asString _ = []"

definition AddInstance :: "string list \<Rightarrow> json \<Rightarrow> ErrorCode + string list" where
  "AddInstance target instance =
     (if type_of_json instance \<noteq> ObjectT \<or>
         \<not> isMember instance ''ID'' \<or>
         type_of_json (member instance ''ID'') \<noteq> StringT
      then Inl ErrorCode_InternalError
      else Inr (target @ [asString (member instance ''ID'')]))"

subsection \<open>ParseStowRequest\<close>

text \<open>
  The collaborators of the client that are not part of the plugin's own sources are
  parameters of the model:
  \<^item> \<open>reader_parse\<close> is \<open>Json::Reader::parse\<close> (\<open>None\<close> when it returns false);
  \<^item> \<open>RestApiGet\<close> is the JSON lookup in the local Orthanc store by URI (\<open>None\<close> when it
    returns false), \<open>RestApiGetBuffer\<close> the lookup of raw bytes;
  \<^item> \<open>ParseAssociativeArray\<close> adds the string members of a field of the body to a map, or
    throws;
  \<^item> \<open>GetServer\<close> looks the remote server up by name and gives the transport to it, or
    throws; \<open>GenerateUuid\<close> is the boundary that \<open>OrthancPluginGenerateUuid\<close> returns.
  The transport is given the POSTs made before (each with the body and the value of
  \<open>countInstances\<close> when it was sent), the HTTP headers, the query arguments of the URI and
  the body; it throws, or returns the answer body.
\<close>

record StowPost =
  post_body :: string
  post_instances :: nat

type_synonym Transport =
  "StowPost list \<Rightarrow> (string \<rightharpoonup> string) \<Rightarrow> (string \<rightharpoonup> string) \<Rightarrow> string \<Rightarrow> ErrorCode + string"

record Environment =
  reader_parse :: "string \<Rightarrow> json option"
  RestApiGet :: "string \<Rightarrow> json option"
  RestApiGetBuffer :: "string \<Rightarrow> string option"
  ParseAssociativeArray ::
    "(string \<rightharpoonup> string) \<Rightarrow> json \<Rightarrow> string \<Rightarrow> ErrorCode + (string \<rightharpoonup> string)"
  GetServer :: "string \<Rightarrow> ErrorCode + Transport"
  GenerateUuid :: string

text \<open>The inner loop over the entries of the list of child instances (lines 159 to 162).\<close>

fun ParseStowRequest_children :: "string list \<Rightarrow> json list \<Rightarrow> ErrorCode + string list" where
  "ParseStowRequest_children instances [] = Inr instances"
| "ParseStowRequest_children instances (x # xs) =
     (case AddInstance instances x of
        Inl e \<Rightarrow> Inl e
      | Inr instances' \<Rightarrow> ParseStowRequest_children instances' xs)"

text \<open>
  The body of the outer loop for one resource identifier (lines 135 to 167). In the
  condition of line 147 the operators \<open>&&\<close> and \<open>||\<close> evaluate from left to right and stop
  early, and every successful lookup overwrites \<open>tmp\<close>: when the condition holds, \<open>tmp\<close> is
  the answer to the last lookup made, the list of instances of the level that matched.
\<close>

definition ParseStowRequest_resource ::
  "(string \<Rightarrow> json option) \<Rightarrow> string list \<Rightarrow> string \<Rightarrow> ErrorCode + string list" where
  "ParseStowRequest_resource get instances resource =
     (if resource = [] then Inl ErrorCode_UnknownResource
      else
        (case get (''/instances/'' @ resource) of
           Some tmp \<Rightarrow> AddInstance instances tmp
         | None \<Rightarrow>
             (let found =
                (if get (''/series/'' @ resource) \<noteq> None \<and>
                    get (''/series/'' @ resource @ ''/instances'') \<noteq> None
                 then get (''/series/'' @ resource @ ''/instances'')
                 else if get (''/studies/'' @ resource) \<noteq> None \<and>
                         get (''/studies/'' @ resource @ ''/instances'') \<noteq> None
                 then get (''/studies/'' @ resource @ ''/instances'')
                 else if get (''/patients/'' @ resource) \<noteq> None \<and>
                         get (''/patients/'' @ resource @ ''/instances'') \<noteq> None
                 then get (''/patients/'' @ resource @ ''/instances'')
                 else None)
              in case found of
                   None \<Rightarrow> Inl ErrorCode_UnknownResource
                 | Some tmp \<Rightarrow>
                     (case tmp of
                        arrayValue xs \<Rightarrow> ParseStowRequest_children instances xs
                      | _ \<Rightarrow> Inl ErrorCode_InternalError))))"

text \<open>The outer loop over the array \<open>Resources\<close> (lines 127 to 168).\<close>

fun ParseStowRequest_loop ::
  "(string \<Rightarrow> json option) \<Rightarrow> string list \<Rightarrow> json list \<Rightarrow> ErrorCode + string list" where
  "ParseStowRequest_loop get instances [] = Inr instances"
| "ParseStowRequest_loop get instances (r # rs) =
     (if type_of_json r \<noteq> StringT then Inl ErrorCode_BadFileFormat
      else
        (case ParseStowRequest_resource get instances (asString r) of
           Inl e \<Rightarrow> Inl e
         | Inr instances' \<Rightarrow> ParseStowRequest_loop get instances' rs))"

text \<open>
  The three out-parameters are returned as a triple: the instances, the HTTP headers and
  the query arguments.
\<close>

definition ParseStowRequest ::
  "Environment \<Rightarrow> (string \<rightharpoonup> string) \<Rightarrow> (string \<rightharpoonup> string) \<Rightarrow> HttpRequest \<Rightarrow>
   ErrorCode + (string list \<times> (string \<rightharpoonup> string) \<times> (string \<rightharpoonup> string))" where
  "ParseStowRequest env httpHeaders queryArguments request =
     (case reader_parse env (request_body request) of
        None \<Rightarrow> Inl ErrorCode_BadFileFormat
      | Some body \<Rightarrow>
          if type_of_json body \<noteq> ObjectT \<or>
             \<not> isMember body ''Resources'' \<or>
             type_of_json (member body ''Resources'') \<noteq> ArrayT
          then Inl ErrorCode_BadFileFormat
          else
            (case ParseAssociativeArray env queryArguments body ''Arguments'' of
               Inl e \<Rightarrow> Inl e
             | Inr queryArguments' \<Rightarrow>
                 (case ParseAssociativeArray env httpHeaders body ''HttpHeaders'' of
                    Inl e \<Rightarrow> Inl e
                  | Inr httpHeaders' \<Rightarrow>
                      (case member body ''Resources'' of
                         arrayValue resources \<Rightarrow>
                           (case ParseStowRequest_loop (RestApiGet env) [] resources of
                              Inl e \<Rightarrow> Inl e
                            | Inr instances \<Rightarrow> Inr (instances, httpHeaders', queryArguments'))
                       | _ \<Rightarrow> Inl ErrorCode_BadFileFormat))))"

subsection \<open>SendStowChunks\<close>

text \<open>
  The two configuration options read by \<open>SendStowChunks\<close> (unsigned integers; the size is
  given in megabytes and multiplied out in \<open>size_t\<close>, which does not wrap on a 64-bit
  target for any 32-bit option value).
\<close>

record Configuration =
  StowMaxInstances :: nat
  StowMaxSize :: nat

text \<open>
  The variables \<open>chunks\<close> and \<open>countInstances\<close> that \<open>StowClient\<close> passes by reference.
  \<open>chunks\<close> is the flattened content of the \<open>ChunkedBuffer\<close>; \<open>GetNumBytes\<close> is its length.
\<close>

record Accumulator =
  chunks :: string
  countInstances :: nat

text \<open>Lines 207 to 241: the checks on the parsed answer of the remote server.\<close>

definition SendStowChunks_answer :: "json option \<Rightarrow> nat \<Rightarrow> ErrorCode + unit" where
  "SendStowChunks_answer parsed count =
     (case parsed of
        None \<Rightarrow> Inl ErrorCode_NetworkProtocol
      | Some response \<Rightarrow>
          if type_of_json response \<noteq> ObjectT \<or> \<not> isMember response ''00081199''
          then Inl ErrorCode_NetworkProtocol
          else
            (case GetSequenceSize response ''00081199'' True of
               Inl e \<Rightarrow> Inl e
             | Inr None \<Rightarrow> Inl ErrorCode_NetworkProtocol
             | Inr (Some size1) \<Rightarrow>
                 if size1 \<noteq> count then Inl ErrorCode_NetworkProtocol
                 else
                   (case GetSequenceSize response ''00081198'' False of
                      Inl e \<Rightarrow> Inl e
                    | Inr r2 \<Rightarrow>
                        if r2 \<noteq> None \<and> r2 \<noteq> Some 0 then Inl ErrorCode_NetworkProtocol
                        else
                          (case GetSequenceSize response ''0008119A'' False of
                             Inl e \<Rightarrow> Inl e
                           | Inr r3 \<Rightarrow>
                               if r3 \<noteq> None \<and> r3 \<noteq> Some 0 then Inl ErrorCode_NetworkProtocol
                               else Inr ()))))"

text \<open>
  The result pairs the POSTs made up to the end of the call with the outcome for the
  caller: the exception, or the accumulator as the call leaves it. A POST is recorded as
  soon as \<open>CallServer\<close> is called, whatever it returns. \<open>Flatten\<close> empties the
  \<open>ChunkedBuffer\<close>.
\<close>

definition SendStowChunks ::
  "Configuration \<Rightarrow> (string \<Rightarrow> json option) \<Rightarrow> Transport \<Rightarrow>
   (string \<rightharpoonup> string) \<Rightarrow> (string \<rightharpoonup> string) \<Rightarrow> string \<Rightarrow>
   StowPost list \<Rightarrow> Accumulator \<Rightarrow> bool \<Rightarrow> StowPost list \<times> (ErrorCode + Accumulator)" where
  "SendStowChunks cfg parse server httpHeaders queryArguments boundary sent acc force =
     (let maxInstances = StowMaxInstances cfg;
          maxSize = StowMaxSize cfg * 1024 * 1024
      in if (force \<and> countInstances acc > 0) \<or>
            (maxInstances \<noteq> 0 \<and> countInstances acc \<ge> maxInstances) \<or>
            (maxSize \<noteq> 0 \<and> length (chunks acc) \<ge> maxSize)
         then
           (let body = chunks acc @ CRLF @ ''--'' @ boundary @ ''--'' @ CRLF;
                sent' = sent @ [\<lparr>post_body = body, post_instances = countInstances acc\<rparr>]
            in case server sent httpHeaders queryArguments body of
                 Inl e \<Rightarrow> (sent', Inl e)
               | Inr answerBody \<Rightarrow>
                   (case SendStowChunks_answer (parse answerBody) (countInstances acc) of
                      Inl e \<Rightarrow> (sent', Inl e)
                    | Inr _ \<Rightarrow> (sent', Inr \<lparr>chunks = [], countInstances = 0\<rparr>)))
         else (sent, Inr acc))"

subsection \<open>StowClient\<close>

text \<open>\<open>boost::lexical_cast<std::string>\<close> of a size: its decimal digits.\<close>

fun lexical_cast :: "nat \<Rightarrow> string" where
  "lexical_cast n =
     (if n < 10 then [char_of (48 + n)]
      else lexical_cast (n div 10) @ [char_of (48 + n mod 10)])"

declare lexical_cast.simps [simp del]

text \<open>The loop over the instances (lines 301 to 315).\<close>

fun StowClient_loop ::
  "Configuration \<Rightarrow> Environment \<Rightarrow> Transport \<Rightarrow>
   (string \<rightharpoonup> string) \<Rightarrow> (string \<rightharpoonup> string) \<Rightarrow> string \<Rightarrow>
   string list \<Rightarrow> StowPost list \<Rightarrow> Accumulator \<Rightarrow> StowPost list \<times> (ErrorCode + Accumulator)" where
  "StowClient_loop cfg env server httpHeaders queryArguments boundary [] sent acc = (sent, Inr acc)"
| "StowClient_loop cfg env server httpHeaders queryArguments boundary (it # rest) sent acc =
     (case RestApiGetBuffer env (''/instances/'' @ it @ ''/file'') of
        None \<Rightarrow> StowClient_loop cfg env server httpHeaders queryArguments boundary rest sent acc
      | Some dicom \<Rightarrow>
          (let acc1 = \<lparr>chunks = chunks acc @
                          CRLF @ ''--'' @ boundary @ CRLF @
                          ''Content-Type: application/dicom'' @ CRLF @
                          ''Content-Length: '' @ lexical_cast (length dicom) @
                          CRLF @ CRLF @
                          dicom,
                        countInstances = countInstances acc + 1\<rparr>
           in case SendStowChunks cfg (reader_parse env) server httpHeaders queryArguments
                     boundary sent acc1 False of
                (sent', Inl e) \<Rightarrow> (sent', Inl e)
              | (sent', Inr acc2) \<Rightarrow>
                  StowClient_loop cfg env server httpHeaders queryArguments boundary rest sent' acc2))"

text \<open>
  Lines 298 to 317: the loop from an empty accumulator, then the final call that forces the
  flush. The accumulator is returned as the final call leaves it.
\<close>

definition StowClient_send ::
  "Configuration \<Rightarrow> Environment \<Rightarrow> Transport \<Rightarrow>
   (string \<rightharpoonup> string) \<Rightarrow> (string \<rightharpoonup> string) \<Rightarrow> string \<Rightarrow>
   string list \<Rightarrow> StowPost list \<times> (ErrorCode + Accumulator)" where
  "StowClient_send cfg env server httpHeaders queryArguments boundary instances =
     (case StowClient_loop cfg env server httpHeaders queryArguments boundary
             instances [] \<lparr>chunks = [], countInstances = 0\<rparr> of
        (sent, Inl e) \<Rightarrow> (sent, Inl e)
      | (sent, Inr acc) \<Rightarrow>
          SendStowChunks cfg (reader_parse env) server httpHeaders queryArguments
            boundary sent acc True)"

text \<open>
  The callback. The result pairs the POSTs made with the exception or the answer. The
  failure of \<open>boundary.assign\<close> for lack of memory (line 278) is left out: a HOL string can
  always be built.
\<close>

definition StowClient ::
  "Configuration \<Rightarrow> Environment \<Rightarrow> HttpRequest \<Rightarrow> StowPost list \<times> (ErrorCode + RestOutput)" where
  "StowClient cfg env request =
     (if length (groups request) \<noteq> 1 then ([], Inl ErrorCode_BadRequest)
      else if request_method request \<noteq> OrthancPluginHttpMethod_Post
      then ([], Inr (SendMethodNotAllowed ''POST''))
      else
        (case GetServer env (hd (groups request)) of
           Inl e \<Rightarrow> ([], Inl e)
         | Inr server \<Rightarrow>
             (let boundary = GenerateUuid env;
                  mime = ''multipart/related; type=application/dicom; boundary='' @ boundary;
                  httpHeaders = [''Accept'' \<mapsto> ''application/dicom+json'',
                                 ''Expect'' \<mapsto> [],
                                 ''Content-Type'' \<mapsto> mime]
              in case ParseStowRequest env httpHeaders Map.empty request of
                   Inl e \<Rightarrow> ([], Inl e)
                 | Inr (instances, httpHeaders', queryArguments) \<Rightarrow>
                     (case StowClient_send cfg env server httpHeaders' queryArguments boundary
                             instances of
                        (sent, Inl e) \<Rightarrow> (sent, Inl e)
                      | (sent, Inr _) \<Rightarrow>
                          (sent, Inr (AnswerBuffer (''{}'' @ [CHR 0x0A]) ''application/json''))))))"

section \<open>STOW-RS server (StowRs.cpp)\<close>

definition SetTag :: "DataSet \<Rightarrow> Tag \<Rightarrow> VR \<Rightarrow> string \<Rightarrow> DataSet" where
  "SetTag dataset tag vr v = Insert dataset tag (ByteValue vr v)"

definition SetSequenceTag :: "DataSet \<Rightarrow> Tag \<Rightarrow> DataSet list \<Rightarrow> DataSet" where
  "SetSequenceTag dataset tag sequence = Insert dataset tag (SequenceOfItems sequence)"

definition IsXmlExpected :: "HttpRequest \<Rightarrow> bool" where
  "IsXmlExpected request =
     (case headers request ''accept'' of
        None \<Rightarrow> False
      | Some a \<Rightarrow>
          (let accept = ToLowerCase a
           in if accept = ''application/dicom+json'' \<or>
                 accept = ''application/json'' \<or>
                 accept = ''*/*''
              then False
              else if accept = ''application/dicom+xml'' \<or>
                      accept = ''application/xml'' \<or>
                      accept = ''text/xml''
              then True
              else False))"

text \<open>
  One part of the multipart body (\<open>size_\<close> is the length of \<open>data_\<close>), and the
  collaborators of the server that are not part of the plugin's own sources:
  \<^item> \<open>GetBaseUrl\<close> gives the base of the WADO-RS URLs for the request;
  \<^item> \<open>ParseContentType\<close> splits a Content-Type header into the media type and its
    attributes;
  \<^item> \<open>ParseMultipartBody\<close> splits the body at the boundary, or throws;
  \<^item> \<open>ParsedDicomFile\<close> parses one part, or throws; the parsed file is the map from the
    tags to their raw values, which \<open>GetRawTagWithDefault\<close> reads;
  \<^item> \<open>RestApiPost\<close> asks the Orthanc store to store a buffer at a URI and tells whether it
    did; it is given the buffers that the store has accepted before.
\<close>

record MultipartItem =
  item_data :: string
  item_contentType :: string

record ServerEnvironment =
  GetBaseUrl :: "HttpRequest \<Rightarrow> string"
  ParseContentType :: "string \<Rightarrow> string \<times> (string \<rightharpoonup> string)"
  ParseMultipartBody :: "string \<Rightarrow> string \<Rightarrow> ErrorCode + MultipartItem list"
  ParsedDicomFile :: "MultipartItem \<Rightarrow> ErrorCode + (Tag \<rightharpoonup> string)"
  RestApiPost :: "string list \<Rightarrow> string \<Rightarrow> string \<Rightarrow> bool"

definition GetRawTagWithDefault :: "(Tag \<rightharpoonup> string) \<Rightarrow> Tag \<Rightarrow> string \<Rightarrow> string" where
  "GetRawTagWithDefault dicom tag defaultValue =
     (case dicom tag of Some v \<Rightarrow> v | None \<Rightarrow> defaultValue)"

text \<open>
  Lines 122 to 151: the checks on the Content-Type header. The result is the answer sent
  before returning, or the boundary.
\<close>

definition StowCallback_framing :: "ServerEnvironment \<Rightarrow> HttpRequest \<Rightarrow> RestOutput + string" where
  "StowCallback_framing env request =
     (case headers request ''content-type'' of
        None \<Rightarrow> Inl (SendHttpStatusCode 400)
      | Some header \<Rightarrow>
          (case ParseContentType env header of
             (application, attributes) \<Rightarrow>
               if application \<noteq> ''multipart/related'' \<or>
                  attributes ''type'' = None \<or>
                  attributes ''boundary'' = None
               then Inl (SendHttpStatusCode 400)
               else
                 (let boundary = the (attributes ''boundary'')
                  in if the (attributes ''type'') \<noteq> ''application/dicom''
                     then Inl (SendHttpStatusCode 415)
                     else Inr boundary)))"

text \<open>The variables that the loop over the parts updates (lines 154 to 157).\<close>

record StowState =
  isFirst :: bool
  result :: DataSet
  success :: "DataSet list"
  failed :: "DataSet list"

text \<open>
  The body of the loop for one part (lines 171 to 231). The first component of the result is
  the list of the buffers that the store has accepted; the second is the exception, the
  answer sent before returning, or the updated variables.
\<close>

definition StowCallback_item ::
  "ServerEnvironment \<Rightarrow> string \<Rightarrow> string \<Rightarrow> string list \<Rightarrow> StowState \<Rightarrow> MultipartItem \<Rightarrow>
   string list \<times> (ErrorCode + RestOutput + StowState)" where
  "StowCallback_item env wadoBase expectedStudy stored st item =
     (if item_contentType item \<noteq> [] \<and> item_contentType item \<noteq> ''application/dicom''
      then (stored, Inr (Inl (SendHttpStatusCode 415)))
      else
        (case ParsedDicomFile env item of
           Inl e \<Rightarrow> (stored, Inl e)
         | Inr dicom \<Rightarrow>
             (let studyInstanceUid = GetRawTagWithDefault dicom DICOM_TAG_STUDY_INSTANCE_UID [];
                  sopClassUid = GetRawTagWithDefault dicom DICOM_TAG_SOP_CLASS_UID [];
                  sopInstanceUid = GetRawTagWithDefault dicom DICOM_TAG_SOP_INSTANCE_UID [];
                  status = SetTag (SetTag [] DICOM_TAG_REFERENCED_SOP_CLASS_UID VR_UI sopClassUid)
                             DICOM_TAG_REFERENCED_SOP_INSTANCE_UID VR_UI sopInstanceUid
              in if expectedStudy \<noteq> [] \<and> studyInstanceUid \<noteq> expectedStudy
                 then
                   (stored,
                    Inr (Inr (st\<lparr>success := success st @
                                  [SetTag status DICOM_TAG_WARNING_REASON VR_US ''B006'']\<rparr>)))
                 else
                   (let st1 = (if isFirst st
                               then st\<lparr>result := SetTag (result st) DICOM_TAG_RETRIEVE_URL VR_UT
                                                  (wadoBase @ ''studies/'' @ studyInstanceUid),
                                       isFirst := False\<rparr>
                               else st);
                        ok = RestApiPost env stored ''/instances'' (item_data item)
                    in if ok
                       then
                         (let url = wadoBase @
                                    ''studies/'' @ studyInstanceUid @
                                    ''/series/'' @
                                    GetRawTagWithDefault dicom DICOM_TAG_SERIES_INSTANCE_UID [] @
                                    ''/instances/'' @ sopInstanceUid
                          in (stored @ [item_data item],
                              Inr (Inr (st1\<lparr>success := success st1 @
                                             [SetTag status DICOM_TAG_RETRIEVE_URL VR_UT url]\<rparr>))))
                       else
                         (stored,
                          Inr (Inr (st1\<lparr>failed := failed st1 @
                                         [SetTag status DICOM_TAG_FAILURE_REASON VR_US ''0110'']\<rparr>)))))))"

text \<open>The loop over the parts (lines 169 to 232).\<close>

fun StowCallback_loop ::
  "ServerEnvironment \<Rightarrow> string \<Rightarrow> string \<Rightarrow> string list \<Rightarrow> StowState \<Rightarrow> MultipartItem list \<Rightarrow>
   string list \<times> (ErrorCode + RestOutput + StowState)" where
  "StowCallback_loop env wadoBase expectedStudy stored st [] = (stored, Inr (Inr st))"
| "StowCallback_loop env wadoBase expectedStudy stored st (item # items) =
     (case StowCallback_item env wadoBase expectedStudy stored st item of
        (stored', Inr (Inr st')) \<Rightarrow> StowCallback_loop env wadoBase expectedStudy stored' st' items
      | (stored', Inr (Inl answer)) \<Rightarrow> (stored', Inr (Inl answer))
      | (stored', Inl e) \<Rightarrow> (stored', Inl e))"

text \<open>
  Lines 154 to 237: the processing of the body once the boundary is known, from the
  buffers that the store holds to those it holds afterwards and the exception or the
  answer.
\<close>

definition StowCallback_parts ::
  "ServerEnvironment \<Rightarrow> HttpRequest \<Rightarrow> string list \<Rightarrow> string \<Rightarrow>
   string list \<times> (ErrorCode + RestOutput)" where
  "StowCallback_parts env request stored boundary =
     (let wadoBase = GetBaseUrl env request;
          expectedStudy = (if length (groups request) = 1 then hd (groups request) else []);
          isXml = IsXmlExpected request
      in case ParseMultipartBody env (request_body request) boundary of
           Inl e \<Rightarrow> (stored, Inl e)
         | Inr items \<Rightarrow>
             (case StowCallback_loop env wadoBase expectedStudy stored
                     \<lparr>isFirst = True, result = [], success = [], failed = []\<rparr> items of
                (stored', Inl e) \<Rightarrow> (stored', Inl e)
              | (stored', Inr (Inl answer)) \<Rightarrow> (stored', Inr answer)
              | (stored', Inr (Inr st)) \<Rightarrow>
                  (stored',
                   Inr (AnswerDicom
                          (SetSequenceTag
                             (SetSequenceTag (result st) DICOM_TAG_FAILED_SOP_SEQUENCE (failed st))
                             DICOM_TAG_REFERENCED_SOP_SEQUENCE (success st))
                          isXml))))"

text \<open>The callback.\<close>

definition StowCallback ::
  "ServerEnvironment \<Rightarrow> HttpRequest \<Rightarrow> string list \<Rightarrow> string list \<times> (ErrorCode + RestOutput)" where
  "StowCallback env request stored =
     (if request_method request \<noteq> OrthancPluginHttpMethod_Post
      then (stored, Inr (SendMethodNotAllowed ''POST''))
      else
        (case StowCallback_framing env request of
           Inl answer \<Rightarrow> (stored, Inr answer)
         | Inr boundary \<Rightarrow> StowCallback_parts env request stored boundary))"

section \<open>The resolver as the specification words it\<close>

text \<open>
  The specification describes the resolution of one resource identifier as an ordered
  fallback over the hierarchy levels: the first level of the order that matches is taken.
  A level matches when the lookup of the resource at that level succeeds and, for a level
  other than the instance level, the second lookup that lists its instances succeeds too.
  The order is a parameter, so that the order of the source and the order of the
  specification can both be compared with \<open>ParseStowRequest_resource\<close>.
\<close>

datatype Level = Patient | Study | Series | Instance

fun level_uri :: "Level \<Rightarrow> string" where
  "level_uri Patient = ''/patients/''"
| "level_uri Study = ''/studies/''"
| "level_uri Series = ''/series/''"
| "level_uri Instance = ''/instances/''"

definition level_matches :: "(string \<Rightarrow> json option) \<Rightarrow> string \<Rightarrow> Level \<Rightarrow> bool" where
  "level_matches get resource level =
     (get (level_uri level @ resource) \<noteq> None \<and>
      (level \<noteq> Instance \<longrightarrow> get (level_uri level @ resource @ ''/instances'') \<noteq> None))"

definition Expand_spec ::
  "Level list \<Rightarrow> (string \<Rightarrow> json option) \<Rightarrow> string list \<Rightarrow> string \<Rightarrow> ErrorCode + string list" where
  "Expand_spec order get instances resource =
     (case find (level_matches get resource) order of
        None \<Rightarrow> Inl ErrorCode_UnknownResource
      | Some Instance \<Rightarrow>
          (case get (level_uri Instance @ resource) of
             Some found \<Rightarrow> AddInstance instances found
           | None \<Rightarrow> Inl ErrorCode_UnknownResource)
      | Some level \<Rightarrow>
          (case get (level_uri level @ resource @ ''/instances'') of
             Some (arrayValue xs) \<Rightarrow> ParseStowRequest_children instances xs
           | Some _ \<Rightarrow> Inl ErrorCode_InternalError
           | None \<Rightarrow> Inl ErrorCode_UnknownResource))"

section \<open>The status items of a run as the specification words them\<close>





section \<open>Notions used to state and prove the properties\<close>

text \<open>An instance is fetchable when the store gives its file (line 304).\<close>

definition fetchable :: "Environment \<Rightarrow> string \<Rightarrow> bool" where
  "fetchable env it = (RestApiGetBuffer env (''/instances/'' @ it @ ''/file'') \<noteq> None)"

text \<open>The accumulator after the part for one fetched file has been added (lines 306 to 311).\<close>

definition add_part :: "string \<Rightarrow> Accumulator \<Rightarrow> string \<Rightarrow> Accumulator" where
  "add_part boundary acc dicom =
     \<lparr>chunks = chunks acc @ CRLF @ ''--'' @ boundary @ CRLF @
                ''Content-Type: application/dicom'' @ CRLF @
                ''Content-Length: '' @ lexical_cast (length dicom) @ CRLF @ CRLF @ dicom,
      countInstances = countInstances acc + 1\<rparr>"



text \<open>
  The study of a part as the server reads it, and whether the part passes the restriction
  to the expected study (line 193).
\<close>

definition study_of :: "ServerEnvironment \<Rightarrow> MultipartItem \<Rightarrow> string" where
  "study_of env item =
     (case ParsedDicomFile env item of
        Inr dicom \<Rightarrow> GetRawTagWithDefault dicom DICOM_TAG_STUDY_INSTANCE_UID []
      | Inl _ \<Rightarrow> [])"

definition passes_restriction :: "ServerEnvironment \<Rightarrow> string \<Rightarrow> MultipartItem \<Rightarrow> bool" where
  "passes_restriction env expectedStudy item =
     (expectedStudy = [] \<or> study_of env item = expectedStudy)"

text \<open>
  The two tags that every status item starts with (lines 190 and 191), and the stamping of
  the retrieve URL on the result (lines 204 to 209).
\<close>

definition status_of :: "(Tag \<rightharpoonup> string) \<Rightarrow> DataSet" where
  "status_of dicom =
     SetTag (SetTag [] DICOM_TAG_REFERENCED_SOP_CLASS_UID VR_UI
               (GetRawTagWithDefault dicom DICOM_TAG_SOP_CLASS_UID []))
       DICOM_TAG_REFERENCED_SOP_INSTANCE_UID VR_UI
       (GetRawTagWithDefault dicom DICOM_TAG_SOP_INSTANCE_UID [])"

definition stamp :: "string \<Rightarrow> string \<Rightarrow> StowState \<Rightarrow> StowState" where
  "stamp wadoBase study st =
     (if isFirst st
      then st\<lparr>result := SetTag (result st) DICOM_TAG_RETRIEVE_URL VR_UT (wadoBase @ ''studies/'' @ study),
              isFirst := False\<rparr>
      else st)"

section \<open>Concrete stores, servers and requests\<close>

subsection \<open>For the client\<close>

text \<open>
  A store in which the identifier \<open>x\<close> names an instance and also a patient with one
  instance \<open>y\<close>.
\<close>

definition store_two_levels :: "string \<Rightarrow> json option" where
  "store_two_levels =
     [''/instances/x'' \<mapsto> objectValue [(''ID'', stringValue ''x'')],
      ''/patients/x'' \<mapsto> objectValue [(''ID'', stringValue ''x'')],
      ''/patients/x/instances'' \<mapsto> arrayValue [objectValue [(''ID'', stringValue ''y'')]]]"





definition server_one :: Transport where
  "server_one sent httpHeaders queryArguments body = Inr ''x''"



text \<open>
  A client whose store knows the instance \<open>a\<close> but cannot give its file, and a request for
  that instance.
\<close>

definition client_unfetchable :: Environment where
  "client_unfetchable =
     \<lparr>reader_parse = (\<lambda>_. Some (objectValue [(''Resources'', arrayValue [stringValue ''a''])])),
      RestApiGet = [''/instances/a'' \<mapsto> objectValue [(''ID'', stringValue ''a'')]],
      RestApiGetBuffer = (\<lambda>_. None),
      ParseAssociativeArray = (\<lambda>m _ _. Inr m),
      GetServer = (\<lambda>_. Inr server_one),
      GenerateUuid = ''b''\<rparr>"

definition request_one_instance :: HttpRequest where
  "request_one_instance =
     \<lparr>request_method = OrthancPluginHttpMethod_Post, groups = [''server''], headers = Map.empty,
      request_body = ''{\"Resources\": [\"a\"]}''\<rparr>"

subsection \<open>For the server\<close>

text \<open>
  Two parts: \<open>A\<close> of study 1, which the store refuses, and \<open>B\<close> of study 2, which it
  accepts.
\<close>

definition item_A :: MultipartItem where
  "item_A = \<lparr>item_data = ''A'', item_contentType = ''application/dicom''\<rparr>"

definition item_B :: MultipartItem where
  "item_B = \<lparr>item_data = ''B'', item_contentType = []\<rparr>"

definition tags_A :: "Tag \<rightharpoonup> string" where
  "tags_A = [DICOM_TAG_STUDY_INSTANCE_UID \<mapsto> ''1'', DICOM_TAG_SERIES_INSTANCE_UID \<mapsto> ''10'',
             DICOM_TAG_SOP_CLASS_UID \<mapsto> ''c'', DICOM_TAG_SOP_INSTANCE_UID \<mapsto> ''A'']"

definition tags_B :: "Tag \<rightharpoonup> string" where
  "tags_B = [DICOM_TAG_STUDY_INSTANCE_UID \<mapsto> ''2'', DICOM_TAG_SERIES_INSTANCE_UID \<mapsto> ''20'',
             DICOM_TAG_SOP_CLASS_UID \<mapsto> ''c'', DICOM_TAG_SOP_INSTANCE_UID \<mapsto> ''B'']"

definition server_env :: ServerEnvironment where
  "server_env =
     \<lparr>GetBaseUrl = (\<lambda>_. ''http://x/''),
      ParseContentType =
        (\<lambda>header. if header = ''text/plain'' then (''text/plain'', Map.empty)
                   else (''multipart/related'',
                         [''type'' \<mapsto> ''application/dicom'', ''boundary'' \<mapsto> ''b''])),
      ParseMultipartBody = (\<lambda>_ _. Inr [item_A, item_B]),
      ParsedDicomFile = (\<lambda>item. Inr (if item_data item = ''A'' then tags_A else tags_B)),
      RestApiPost = (\<lambda>_ _ buffer. buffer \<noteq> ''A'')\<rparr>"

text \<open>A POST to the server, with the groups of the URI and the Content-Type header given.\<close>

definition request_stow :: "string list \<Rightarrow> string \<Rightarrow> HttpRequest" where
  "request_stow study contentType =
     \<lparr>request_method = OrthancPluginHttpMethod_Post, groups = study,
      headers = [''content-type'' \<mapsto> contentType], request_body = ''body''\<rparr>"

definition stow_header :: string where
  "stow_header = ''multipart/related; type=application/dicom; boundary=b''"

text \<open>The status items and the answers that the server builds for these parts.\<close>

definition record_A_failed :: DataSet where
  "record_A_failed =
     [(DICOM_TAG_REFERENCED_SOP_CLASS_UID, ByteValue VR_UI ''c''),
      (DICOM_TAG_REFERENCED_SOP_INSTANCE_UID, ByteValue VR_UI ''A''),
      (DICOM_TAG_FAILURE_REASON, ByteValue VR_US ''0110'')]"

definition record_A_warning :: DataSet where
  "record_A_warning =
     [(DICOM_TAG_REFERENCED_SOP_CLASS_UID, ByteValue VR_UI ''c''),
      (DICOM_TAG_REFERENCED_SOP_INSTANCE_UID, ByteValue VR_UI ''A''),
      (DICOM_TAG_WARNING_REASON, ByteValue VR_US ''B006'')]"

definition record_B_stored :: DataSet where
  "record_B_stored =
     [(DICOM_TAG_REFERENCED_SOP_CLASS_UID, ByteValue VR_UI ''c''),
      (DICOM_TAG_REFERENCED_SOP_INSTANCE_UID, ByteValue VR_UI ''B''),
      (DICOM_TAG_RETRIEVE_URL, ByteValue VR_UT ''http://x/studies/2/series/20/instances/B'')]"

definition record_B_warning :: DataSet where
  "record_B_warning =
     [(DICOM_TAG_REFERENCED_SOP_CLASS_UID, ByteValue VR_UI ''c''),
      (DICOM_TAG_REFERENCED_SOP_INSTANCE_UID, ByteValue VR_UI ''B''),
      (DICOM_TAG_WARNING_REASON, ByteValue VR_US ''B006'')]"

definition answer_unrestricted :: DataSet where
  "answer_unrestricted =
     [(DICOM_TAG_RETRIEVE_URL, ByteValue VR_UT ''http://x/studies/1''),
      (DICOM_TAG_FAILED_SOP_SEQUENCE, SequenceOfItems [record_A_failed]),
      (DICOM_TAG_REFERENCED_SOP_SEQUENCE, SequenceOfItems [record_B_stored])]"

definition answer_study_2 :: DataSet where
  "answer_study_2 =
     [(DICOM_TAG_RETRIEVE_URL, ByteValue VR_UT ''http://x/studies/2''),
      (DICOM_TAG_FAILED_SOP_SEQUENCE, SequenceOfItems []),
      (DICOM_TAG_REFERENCED_SOP_SEQUENCE, SequenceOfItems [record_A_warning, record_B_stored])]"

definition answer_study_3 :: DataSet where
  "answer_study_3 =
     [(DICOM_TAG_FAILED_SOP_SEQUENCE, SequenceOfItems []),
      (DICOM_TAG_REFERENCED_SOP_SEQUENCE, SequenceOfItems [record_A_warning, record_B_warning])]"

definition state_after_A :: StowState where
  "state_after_A =
     \<lparr>isFirst = False,
      result = [(DICOM_TAG_RETRIEVE_URL, ByteValue VR_UT ''http://x/studies/1'')],
      success = [],
      failed = [record_A_failed]\<rparr>"

section \<open>Properties of the STOW-RS client\<close>

subsection \<open>Facts about the JSON values and the sequence sizes\<close>

lemma ToUpperCase_00081199: "ToUpperCase ''00081199'' = ''00081199''" by code_simp

lemma ToLowerCase_00081199: "ToLowerCase ''00081199'' = ''00081199''" by code_simp

lemma ToUpperCase_00081198: "ToUpperCase ''00081198'' = ''00081198''" by code_simp

lemma ToLowerCase_00081198: "ToLowerCase ''00081198'' = ''00081198''" by code_simp

lemma ToUpperCase_0008119A: "ToUpperCase ''0008119A'' = ''0008119A''" by code_simp

lemma ToLowerCase_0008119A: "ToLowerCase ''0008119A'' = ''0008119a''" by code_simp

lemmas tag_case = ToUpperCase_00081199 ToLowerCase_00081199 ToUpperCase_00081198
  ToLowerCase_00081198 ToUpperCase_0008119A ToLowerCase_0008119A

lemma type_of_json_ArrayT: "type_of_json v = ArrayT \<longleftrightarrow> (\<exists>items. v = arrayValue items)"
  by (cases v) auto

lemma type_of_json_ObjectT: "type_of_json v = ObjectT \<longleftrightarrow> (\<exists>kvs. v = objectValue kvs)"
  by (cases v) auto


lemma sequence_value:
  "(type_of_json v = ObjectT \<and> isMember v ''Value'' \<and> type_of_json (member v ''Value'') = ArrayT \<and>
    json_size (member v ''Value'') = n) \<longleftrightarrow>
   (\<exists>seq items. v = objectValue seq \<and> map_of seq ''Value'' = Some (arrayValue items) \<and>
      length items = n)"
  by (cases v) (auto simp: type_of_json_ArrayT split: option.splits)

lemma GetSequenceSize_Some:
  "GetSequenceSize (objectValue kvs) tag m = Inr (Some n) \<longleftrightarrow>
     (\<exists>seq items.
        (map_of kvs (ToUpperCase tag) = Some (objectValue seq) \<or>
         map_of kvs (ToUpperCase tag) = None \<and> map_of kvs (ToLowerCase tag) = Some (objectValue seq)) \<and>
        map_of seq ''Value'' = Some (arrayValue items) \<and> length items = n)"
proof (cases "map_of kvs (ToUpperCase tag)")
  case None
  note up = None
  show ?thesis
  proof (cases "map_of kvs (ToLowerCase tag)")
    case None
    with up show ?thesis by (simp add: GetSequenceSize_def Let_def)
  next
    case (Some v)
    with up have "GetSequenceSize (objectValue kvs) tag m = Inr (Some n) \<longleftrightarrow>
       (type_of_json v = ObjectT \<and> isMember v ''Value'' \<and>
        type_of_json (member v ''Value'') = ArrayT \<and> json_size (member v ''Value'') = n)"
      by (auto simp: GetSequenceSize_def Let_def)
    also have "\<dots> \<longleftrightarrow> (\<exists>seq items. v = objectValue seq \<and>
        map_of seq ''Value'' = Some (arrayValue items) \<and> length items = n)"
      by (rule sequence_value)
    finally show ?thesis using up Some by auto
  qed
next
  case (Some v)
  then have "GetSequenceSize (objectValue kvs) tag m = Inr (Some n) \<longleftrightarrow>
       (type_of_json v = ObjectT \<and> isMember v ''Value'' \<and>
        type_of_json (member v ''Value'') = ArrayT \<and> json_size (member v ''Value'') = n)"
    by (auto simp: GetSequenceSize_def Let_def)
  also have "\<dots> \<longleftrightarrow> (\<exists>seq items. v = objectValue seq \<and>
        map_of seq ''Value'' = Some (arrayValue items) \<and> length items = n)"
    by (rule sequence_value)
  finally show ?thesis using Some by auto
qed

lemma GetSequenceSize_error:
  "GetSequenceSize answer tag m = Inl e \<Longrightarrow> e = ErrorCode_NetworkProtocol"
  by (auto simp: GetSequenceSize_def Let_def split: option.splits if_splits)

lemma GetSequenceSize_upper:
  "map_of kvs (ToUpperCase tag) = Some (objectValue seq) \<Longrightarrow>
   map_of seq ''Value'' = Some (arrayValue items) \<Longrightarrow>
   GetSequenceSize (objectValue kvs) tag m = Inr (Some (length items))"
  by (simp add: GetSequenceSize_Some)

lemma SendStowChunks_answer_error:
  "SendStowChunks_answer parsed n = Inl e \<Longrightarrow> e = ErrorCode_NetworkProtocol"
  by (auto simp: SendStowChunks_answer_def split: option.splits if_splits sum.splits
           dest: GetSequenceSize_error)

lemma SendStowChunks_answer_ok:
  assumes "SendStowChunks_answer parsed n = Inr u"
  shows "\<exists>kvs seq items. parsed = Some (objectValue kvs) \<and>
           map_of kvs ''00081199'' = Some (objectValue seq) \<and>
           map_of seq ''Value'' = Some (arrayValue items) \<and> length items = n"
proof -
  from assms obtain response where p: "parsed = Some response"
    by (auto simp: SendStowChunks_answer_def split: option.splits)
  with assms obtain kvs where r: "response = objectValue kvs"
    by (cases response) (auto simp: SendStowChunks_answer_def)
  from assms p r have "GetSequenceSize (objectValue kvs) ''00081199'' True = Inr (Some n)"
    by (auto simp: SendStowChunks_answer_def split: option.splits if_splits sum.splits)
  then show ?thesis using p r
    by (auto simp: GetSequenceSize_Some tag_case)
qed

lemma SendStowChunks_answer_mismatch:
  assumes "map_of kvs ''00081199'' = Some (objectValue seq)"
    and "map_of seq ''Value'' = Some (arrayValue items)" and "length items \<noteq> n"
  shows "SendStowChunks_answer (Some (objectValue kvs)) n = Inl ErrorCode_NetworkProtocol"
proof -
  have "GetSequenceSize (objectValue kvs) ''00081199'' True = Inr (Some (length items))"
    using assms by (intro GetSequenceSize_upper) (simp_all add: tag_case)
  then show ?thesis using assms
    by (simp add: SendStowChunks_answer_def)
qed

lemma SendStowChunks_answer_failed:
  assumes "tag = ''00081198'' \<or> tag = ''0008119A''"
    and "map_of kvs tag = Some (objectValue seq)"
    and "map_of seq ''Value'' = Some (arrayValue items)" and "items \<noteq> []"
  shows "SendStowChunks_answer (Some (objectValue kvs)) n = Inl ErrorCode_NetworkProtocol"
proof (cases "SendStowChunks_answer (Some (objectValue kvs)) n")
  case (Inl e)
  then show ?thesis by (simp add: SendStowChunks_answer_error)
next
  case (Inr u)
  have g: "GetSequenceSize (objectValue kvs) tag False = Inr (Some (length items))"
    using assms by (intro GetSequenceSize_upper) (auto simp: tag_case)
  from Inr assms(1) g assms(4) show ?thesis
    by (auto simp: SendStowChunks_answer_def split: option.splits if_splits sum.splits)
qed


subsection \<open>When a flush happens\<close>

text \<open>
  C1. A call of \<open>SendStowChunks\<close> performs a flush, that is, it POSTs the content of the
  accumulator followed by the closing delimiter, if and only if
  \<open>force \<and> countInstances > 0\<close>, or \<open>StowMaxInstances \<noteq> 0 \<and> countInstances \<ge> StowMaxInstances\<close>,
  or the limit in bytes is not zero and the buffer has reached it. When no condition holds
  nothing is sent, no exception is thrown and the accumulator is unchanged. A limit of 0
  removes its trigger from the condition.
\<close>

theorem SendStowChunks_flush_condition:
  "((fst (SendStowChunks cfg parse server httpHeaders queryArguments boundary sent acc force) =
      sent @ [\<lparr>post_body = chunks acc @ CRLF @ ''--'' @ boundary @ ''--'' @ CRLF,
                post_instances = countInstances acc\<rparr>])
    = ((force \<and> countInstances acc > 0) \<or>
       (StowMaxInstances cfg \<noteq> 0 \<and> countInstances acc \<ge> StowMaxInstances cfg) \<or>
       (StowMaxSize cfg * 1024 * 1024 \<noteq> 0 \<and>
        length (chunks acc) \<ge> StowMaxSize cfg * 1024 * 1024))) \<and>
   (\<not> ((force \<and> countInstances acc > 0) \<or>
       (StowMaxInstances cfg \<noteq> 0 \<and> countInstances acc \<ge> StowMaxInstances cfg) \<or>
       (StowMaxSize cfg * 1024 * 1024 \<noteq> 0 \<and>
        length (chunks acc) \<ge> StowMaxSize cfg * 1024 * 1024)) \<longrightarrow>
    SendStowChunks cfg parse server httpHeaders queryArguments boundary sent acc force =
      (sent, Inr acc)) \<and>
   (StowMaxInstances cfg = 0 \<longrightarrow>
    (fst (SendStowChunks cfg parse server httpHeaders queryArguments boundary sent acc force) =
      sent @ [\<lparr>post_body = chunks acc @ CRLF @ ''--'' @ boundary @ ''--'' @ CRLF,
                post_instances = countInstances acc\<rparr>])
    = ((force \<and> countInstances acc > 0) \<or>
       (StowMaxSize cfg * 1024 * 1024 \<noteq> 0 \<and>
        length (chunks acc) \<ge> StowMaxSize cfg * 1024 * 1024))) \<and>
   (StowMaxSize cfg = 0 \<longrightarrow>
    (fst (SendStowChunks cfg parse server httpHeaders queryArguments boundary sent acc force) =
      sent @ [\<lparr>post_body = chunks acc @ CRLF @ ''--'' @ boundary @ ''--'' @ CRLF,
                post_instances = countInstances acc\<rparr>])
    = ((force \<and> countInstances acc > 0) \<or>
       (StowMaxInstances cfg \<noteq> 0 \<and> countInstances acc \<ge> StowMaxInstances cfg)))"
  by (auto simp: SendStowChunks_def Let_def split: sum.splits)

theorem SendStowChunks_flush_condition_witness:
  "SendStowChunks \<lparr>StowMaxInstances = 0, StowMaxSize = 0\<rparr> (\<lambda>_. None) (\<lambda>_ _ _ _. Inr [])
     Map.empty Map.empty ''b'' [] \<lparr>chunks = ''x'', countInstances = 5\<rparr> False =
     ([], Inr \<lparr>chunks = ''x'', countInstances = 5\<rparr>)"
  using SendStowChunks_flush_condition [of "\<lparr>StowMaxInstances = 0, StowMaxSize = 0\<rparr>" "\<lambda>_. None"
      "\<lambda>_ _ _ _. Inr []" Map.empty Map.empty "''b''" "[]"
      "\<lparr>chunks = ''x'', countInstances = 5\<rparr>" False]
  by simp

subsection \<open>The checks on the answer to a flush\<close>

text \<open>
  C3. When a flush of \<open>countInstances\<close> instances is performed, the call returns normally
  only if the answer of the remote server parses as a JSON object whose member \<open>00081199\<close>
  is an object with an array \<open>Value\<close> of exactly \<open>countInstances\<close> items. If that array has
  another number of items, or if the member \<open>00081198\<close> or \<open>0008119A\<close> is such a sequence
  with at least one item, the call throws \<open>ErrorCode_NetworkProtocol\<close>; this is the only
  error code thrown once the transport has returned an answer.
\<close>

theorem SendStowChunks_response:
  "(fst (SendStowChunks cfg parse server httpHeaders queryArguments boundary sent acc force) \<noteq> sent \<and>
    snd (SendStowChunks cfg parse server httpHeaders queryArguments boundary sent acc force) = Inr acc'
    \<longrightarrow> (\<exists>answerBody kvs seq items.
           server sent httpHeaders queryArguments
             (chunks acc @ CRLF @ ''--'' @ boundary @ ''--'' @ CRLF) = Inr answerBody \<and>
           parse answerBody = Some (objectValue kvs) \<and>
           map_of kvs ''00081199'' = Some (objectValue seq) \<and>
           map_of seq ''Value'' = Some (arrayValue items) \<and>
           length items = countInstances acc)) \<and>
   (fst (SendStowChunks cfg parse server httpHeaders queryArguments boundary sent acc force) \<noteq> sent \<and>
    server sent httpHeaders queryArguments
      (chunks acc @ CRLF @ ''--'' @ boundary @ ''--'' @ CRLF) = Inr answerBody \<and>
    parse answerBody = Some (objectValue kvs) \<and>
    map_of seq ''Value'' = Some (arrayValue items) \<and>
    (map_of kvs ''00081199'' = Some (objectValue seq) \<and> length items \<noteq> countInstances acc \<or>
     map_of kvs ''00081198'' = Some (objectValue seq) \<and> items \<noteq> [] \<or>
     map_of kvs ''0008119A'' = Some (objectValue seq) \<and> items \<noteq> [])
    \<longrightarrow> snd (SendStowChunks cfg parse server httpHeaders queryArguments boundary sent acc force)
          = Inl ErrorCode_NetworkProtocol) \<and>
   (server sent httpHeaders queryArguments
      (chunks acc @ CRLF @ ''--'' @ boundary @ ''--'' @ CRLF) = Inr answerBody \<and>
    snd (SendStowChunks cfg parse server httpHeaders queryArguments boundary sent acc force) = Inl e
    \<longrightarrow> e = ErrorCode_NetworkProtocol)"
proof (intro conjI impI)
  let ?r = "SendStowChunks cfg parse server httpHeaders queryArguments boundary sent acc force"
  let ?body = "chunks acc @ CRLF @ ''--'' @ boundary @ ''--'' @ CRLF"
  {
    assume a: "fst ?r \<noteq> sent \<and> snd ?r = Inr acc'"
    then obtain answerBody u where s: "server sent httpHeaders queryArguments ?body = Inr answerBody"
      and c: "SendStowChunks_answer (parse answerBody) (countInstances acc) = Inr u"
      by (auto simp: SendStowChunks_def Let_def split: sum.splits if_splits)
    from SendStowChunks_answer_ok [OF c] s
    show "\<exists>answerBody kvs seq items.
           server sent httpHeaders queryArguments ?body = Inr answerBody \<and>
           parse answerBody = Some (objectValue kvs) \<and>
           map_of kvs ''00081199'' = Some (objectValue seq) \<and>
           map_of seq ''Value'' = Some (arrayValue items) \<and>
           length items = countInstances acc"
      by auto
  }
  {
    assume a: "fst ?r \<noteq> sent \<and>
      server sent httpHeaders queryArguments ?body = Inr answerBody \<and>
      parse answerBody = Some (objectValue kvs) \<and>
      map_of seq ''Value'' = Some (arrayValue items) \<and>
      (map_of kvs ''00081199'' = Some (objectValue seq) \<and> length items \<noteq> countInstances acc \<or>
       map_of kvs ''00081198'' = Some (objectValue seq) \<and> items \<noteq> [] \<or>
       map_of kvs ''0008119A'' = Some (objectValue seq) \<and> items \<noteq> [])"
    then have "SendStowChunks_answer (parse answerBody) (countInstances acc) = Inl ErrorCode_NetworkProtocol"
      using SendStowChunks_answer_mismatch [of kvs seq items "countInstances acc"]
        SendStowChunks_answer_failed [of "''00081198''" kvs seq items "countInstances acc"]
        SendStowChunks_answer_failed [of "''0008119A''" kvs seq items "countInstances acc"]
      by auto
    with a show "snd ?r = Inl ErrorCode_NetworkProtocol"
      by (auto simp: SendStowChunks_def Let_def split: sum.splits if_splits)
  }
  {
    assume a: "server sent httpHeaders queryArguments ?body = Inr answerBody \<and> snd ?r = Inl e"
    then show "e = ErrorCode_NetworkProtocol"
      by (auto simp: SendStowChunks_def Let_def split: sum.splits if_splits
               dest: SendStowChunks_answer_error)
  }
qed

theorem SendStowChunks_response_witness:
  "(\<exists>answerBody kvs seq items.
      (Inr [] :: ErrorCode + string) = Inr answerBody \<and>
      Some (objectValue [(''00081199'', objectValue [(''Value'', arrayValue [nullValue])])]) =
        Some (objectValue kvs) \<and>
      map_of kvs ''00081199'' = Some (objectValue seq) \<and>
      map_of seq ''Value'' = Some (arrayValue items) \<and>
      length items = 1) \<and>
   snd (SendStowChunks \<lparr>StowMaxInstances = 10, StowMaxSize = 10\<rparr>
          (\<lambda>_. Some (objectValue [(''00081199'', objectValue [(''Value'', arrayValue [nullValue])])]))
          (\<lambda>_ _ _ _. Inr []) Map.empty Map.empty ''b'' []
          \<lparr>chunks = ''x'', countInstances = 2\<rparr> True) = Inl ErrorCode_NetworkProtocol"
proof -
  let ?cfg = "\<lparr>StowMaxInstances = 10, StowMaxSize = 10\<rparr>"
  let ?kvs = "[(''00081199'', objectValue [(''Value'', arrayValue [nullValue])])]"
  let ?parse = "\<lambda>_::string. Some (objectValue ?kvs)"
  let ?server = "\<lambda>(_::StowPost list) (_::string \<rightharpoonup> string) (_::string \<rightharpoonup> string) (_::string).
                   (Inr [] :: ErrorCode + string)"
  let ?one = "\<lparr>chunks = ''x'', countInstances = 1\<rparr>"
  let ?two = "\<lparr>chunks = ''x'', countInstances = 2\<rparr>"
  have ok: "SendStowChunks ?cfg ?parse ?server Map.empty Map.empty ''b'' [] ?one True =
      ([\<lparr>post_body = ''x'' @ CRLF @ ''--'' @ ''b'' @ ''--'' @ CRLF, post_instances = 1\<rparr>],
       Inr \<lparr>chunks = [], countInstances = 0\<rparr>)"
    by (simp add: SendStowChunks_def SendStowChunks_answer_def GetSequenceSize_def tag_case)
  have bad: "fst (SendStowChunks ?cfg ?parse ?server Map.empty Map.empty ''b'' [] ?two True) \<noteq> []"
    by (simp add: SendStowChunks_def SendStowChunks_answer_def GetSequenceSize_def tag_case)
  from SendStowChunks_response [where cfg = ?cfg and parse = ?parse and server = ?server
      and httpHeaders = Map.empty and queryArguments = Map.empty and boundary = "''b''"
      and sent = "[]" and acc = ?one and force = True
      and acc' = "\<lparr>chunks = [], countInstances = 0\<rparr>"]
  have first: "\<exists>answerBody kvs seq items.
      (Inr [] :: ErrorCode + string) = Inr answerBody \<and>
      Some (objectValue ?kvs) = Some (objectValue kvs) \<and>
      map_of kvs ''00081199'' = Some (objectValue seq) \<and>
      map_of seq ''Value'' = Some (arrayValue items) \<and>
      length items = 1"
    unfolding ok by simp
  from SendStowChunks_response [where cfg = ?cfg and parse = ?parse and server = ?server
      and httpHeaders = Map.empty and queryArguments = Map.empty and boundary = "''b''"
      and sent = "[]" and acc = ?two and force = True
      and answerBody = "[]" and kvs = ?kvs and seq = "[(''Value'', arrayValue [nullValue])]"
      and items = "[nullValue]"] bad
  have second: "snd (SendStowChunks ?cfg ?parse ?server Map.empty Map.empty ''b'' [] ?two True) =
      Inl ErrorCode_NetworkProtocol"
    by simp
  from first second show ?thesis by blast
qed

subsection \<open>The order of the hierarchy levels\<close>

lemma AddInstance_error: "AddInstance target x = Inl e \<Longrightarrow> e = ErrorCode_InternalError"
  by (auto simp: AddInstance_def split: if_splits)

lemma ParseStowRequest_children_error:
  "ParseStowRequest_children instances xs = Inl e \<Longrightarrow> e = ErrorCode_InternalError"
  by (induction xs arbitrary: instances) (auto split: sum.splits dest: AddInstance_error)

lemma level_matches_simps:
  "level_matches get r Instance \<longleftrightarrow> get (''/instances/'' @ r) \<noteq> None"
  "level_matches get r Series \<longleftrightarrow>
     get (''/series/'' @ r) \<noteq> None \<and> get (''/series/'' @ r @ ''/instances'') \<noteq> None"
  "level_matches get r Study \<longleftrightarrow>
     get (''/studies/'' @ r) \<noteq> None \<and> get (''/studies/'' @ r @ ''/instances'') \<noteq> None"
  "level_matches get r Patient \<longleftrightarrow>
     get (''/patients/'' @ r) \<noteq> None \<and> get (''/patients/'' @ r @ ''/instances'') \<noteq> None"
  by (simp_all add: level_matches_def)

lemma Expand_spec_listing:
  "level \<noteq> Instance \<Longrightarrow> find (level_matches get r) order = Some level \<Longrightarrow>
   get (level_uri level @ r @ ''/instances'') = Some tmp \<Longrightarrow>
   Expand_spec order get instances r =
     (case tmp of arrayValue xs \<Rightarrow> ParseStowRequest_children instances xs
      | _ \<Rightarrow> Inl ErrorCode_InternalError)"
  by (cases level; cases tmp) (simp_all add: Expand_spec_def)

lemma ParseStowRequest_resource_refines:
  assumes r: "resource \<noteq> []"
  shows "ParseStowRequest_resource get instances resource =
       Expand_spec [Instance, Series, Study, Patient] get instances resource"
proof (cases "get (''/instances/'' @ resource)")
  case (Some tmp)
  then have "find (level_matches get resource) [Instance, Series, Study, Patient] = Some Instance"
    by (simp add: level_matches_simps)
  then show ?thesis using r Some
    by (simp add: ParseStowRequest_resource_def Expand_spec_def)
next
  case None
  note inst = None
  show ?thesis
  proof (cases "level_matches get resource Series")
    case True
    then obtain tmp where t: "get (''/series/'' @ resource @ ''/instances'') = Some tmp"
      by (auto simp: level_matches_simps)
    have f: "find (level_matches get resource) [Instance, Series, Study, Patient] = Some Series"
      using inst True by (simp add: level_matches_simps(1))
    have "Expand_spec [Instance, Series, Study, Patient] get instances resource =
       (case tmp of arrayValue xs \<Rightarrow> ParseStowRequest_children instances xs
        | _ \<Rightarrow> Inl ErrorCode_InternalError)"
      using t by (intro Expand_spec_listing [OF _ f]) simp_all
    moreover have "ParseStowRequest_resource get instances resource =
       (case tmp of arrayValue xs \<Rightarrow> ParseStowRequest_children instances xs
        | _ \<Rightarrow> Inl ErrorCode_InternalError)"
      using r inst True t by (simp add: ParseStowRequest_resource_def level_matches_simps)
    ultimately show ?thesis by simp
  next
    case False
    note ser = False
    show ?thesis
    proof (cases "level_matches get resource Study")
      case True
      then obtain tmp where t: "get (''/studies/'' @ resource @ ''/instances'') = Some tmp"
        by (auto simp: level_matches_simps)
      have f: "find (level_matches get resource) [Instance, Series, Study, Patient] = Some Study"
        using inst ser True by (simp add: level_matches_simps(1))
      have "Expand_spec [Instance, Series, Study, Patient] get instances resource =
         (case tmp of arrayValue xs \<Rightarrow> ParseStowRequest_children instances xs
          | _ \<Rightarrow> Inl ErrorCode_InternalError)"
        using t by (intro Expand_spec_listing [OF _ f]) simp_all
      moreover have "ParseStowRequest_resource get instances resource =
         (case tmp of arrayValue xs \<Rightarrow> ParseStowRequest_children instances xs
          | _ \<Rightarrow> Inl ErrorCode_InternalError)"
        using r inst ser True t
        by (auto simp: ParseStowRequest_resource_def level_matches_simps)
      ultimately show ?thesis by simp
    next
      case False
      note stu = False
      show ?thesis
      proof (cases "level_matches get resource Patient")
        case True
        then obtain tmp where t: "get (''/patients/'' @ resource @ ''/instances'') = Some tmp"
          by (auto simp: level_matches_simps)
        have f: "find (level_matches get resource) [Instance, Series, Study, Patient] = Some Patient"
          using inst ser stu True by (simp add: level_matches_simps(1))
        have "Expand_spec [Instance, Series, Study, Patient] get instances resource =
           (case tmp of arrayValue xs \<Rightarrow> ParseStowRequest_children instances xs
            | _ \<Rightarrow> Inl ErrorCode_InternalError)"
          using t by (intro Expand_spec_listing [OF _ f]) simp_all
        moreover have "ParseStowRequest_resource get instances resource =
           (case tmp of arrayValue xs \<Rightarrow> ParseStowRequest_children instances xs
            | _ \<Rightarrow> Inl ErrorCode_InternalError)"
          using r inst ser stu True t
          by (auto simp: ParseStowRequest_resource_def level_matches_simps)
        ultimately show ?thesis by simp
      next
        case False
        have f: "find (level_matches get resource) [Instance, Series, Study, Patient] = None"
          using inst ser stu False by (simp add: level_matches_simps(1))
        have "ParseStowRequest_resource get instances resource = Inl ErrorCode_UnknownResource"
          using r inst ser stu False
          by (auto simp: ParseStowRequest_resource_def level_matches_simps)
        moreover have "Expand_spec [Instance, Series, Study, Patient] get instances resource =
            Inl ErrorCode_UnknownResource"
          unfolding Expand_spec_def f by simp
        ultimately show ?thesis by simp
      qed
    qed
  qed
qed

lemma Expand_spec_unknown:
  "Expand_spec order get instances r = Inl ErrorCode_UnknownResource \<longleftrightarrow>
   find (level_matches get r) order = None"
proof (cases "find (level_matches get r) order")
  case None
  then show ?thesis by (simp add: Expand_spec_def)
next
  case (Some level)
  then have m: "level_matches get r level" by (auto simp: find_Some_iff)
  show ?thesis
  proof (cases "level = Instance")
    case True
    with m obtain tmp where "get (''/instances/'' @ r) = Some tmp"
      by (auto simp: level_matches_simps)
    then show ?thesis using Some True
      by (auto simp: Expand_spec_def dest: AddInstance_error)
  next
    case False
    with m obtain tmp where t: "get (level_uri level @ r @ ''/instances'') = Some tmp"
      by (auto simp: level_matches_def)
    show ?thesis
      unfolding Expand_spec_listing [OF False Some t] using Some
      by (cases tmp) (auto dest: ParseStowRequest_children_error)
  qed
qed

text \<open>
  C7 (as amended). For every non-empty resource identifier, \<open>ParseStowRequest_resource\<close> tries
  the four hierarchy levels in the order instance, series, study, patient and takes the
  first level that matches: the lookup of the resource succeeds and, for a level other than
  the instance level, the second lookup that lists its instances succeeds too. It throws
  \<open>ErrorCode_UnknownResource\<close> exactly when no level matches.
\<close>

theorem ParseStowRequest_resource_order:
  "resource \<noteq> [] \<Longrightarrow>
     ParseStowRequest_resource get instances resource =
       Expand_spec [Instance, Series, Study, Patient] get instances resource \<and>
     (ParseStowRequest_resource get instances resource = Inl ErrorCode_UnknownResource \<longleftrightarrow>
        (\<forall>level. \<not> level_matches get resource level))"
proof (intro conjI)
  assume r: "resource \<noteq> []"
  show eq: "ParseStowRequest_resource get instances resource =
       Expand_spec [Instance, Series, Study, Patient] get instances resource"
    using r by (rule ParseStowRequest_resource_refines)
  have "\<And>l. l \<in> set [Instance, Series, Study, Patient]"
    subgoal for l by (cases l) auto done
  then have all: "(\<forall>level. \<not> level_matches get resource level) \<longleftrightarrow>
      find (level_matches get resource) [Instance, Series, Study, Patient] = None"
    unfolding find_None_iff by blast
  show "ParseStowRequest_resource get instances resource = Inl ErrorCode_UnknownResource \<longleftrightarrow>
        (\<forall>level. \<not> level_matches get resource level)"
    unfolding eq all by (rule Expand_spec_unknown)
qed

theorem ParseStowRequest_resource_order_witness:
  "ParseStowRequest_resource store_two_levels [] ''x'' =
     Expand_spec [Instance, Series, Study, Patient] store_two_levels [] ''x'' \<and>
   (ParseStowRequest_resource store_two_levels [] ''x'' = Inl ErrorCode_UnknownResource \<longleftrightarrow>
      (\<forall>level. \<not> level_matches store_two_levels ''x'' level))"
proof -
  have h: "''x'' \<noteq> []" by simp
  from ParseStowRequest_resource_order [OF h] show ?thesis .
qed

text \<open>
  With the order patient, study, series, instance the outcome differs: in a store where
  \<open>x\<close> names both an instance and a patient, the source takes the instance and that order
  takes the instances of the patient.
\<close>

theorem ParseStowRequest_resource_order_counterexample:
  "ParseStowRequest_resource store_two_levels [] ''x'' = Inr [''x''] \<and>
   Expand_spec [Patient, Study, Series, Instance] store_two_levels [] ''x'' = Inr [''y'']"
  by (simp add: ParseStowRequest_resource_def Expand_spec_def level_matches_def store_two_levels_def
        AddInstance_def)

subsection \<open>Empty identifiers and malformed child entries\<close>








subsection \<open>The loop over the instances\<close>


lemma StowClient_loop_Cons:
  "StowClient_loop cfg env server h q b (it # rest) sent acc =
     (case RestApiGetBuffer env (''/instances/'' @ it @ ''/file'') of
        None \<Rightarrow> StowClient_loop cfg env server h q b rest sent acc
      | Some dicom \<Rightarrow>
          (case SendStowChunks cfg (reader_parse env) server h q b sent (add_part b acc dicom) False of
             (sent', Inl e) \<Rightarrow> (sent', Inl e)
           | (sent', Inr acc2) \<Rightarrow> StowClient_loop cfg env server h q b rest sent' acc2))"
  by (simp add: add_part_def Let_def split: option.splits)

lemma countInstances_add_part [simp]:
  "countInstances (add_part b acc dicom) = countInstances acc + 1"
  by (simp add: add_part_def)

text \<open>The loop ignores the instances that cannot be fetched.\<close>

lemma StowClient_loop_filter:
  "StowClient_loop cfg env server h q b instances sent acc =
   StowClient_loop cfg env server h q b (filter (fetchable env) instances) sent acc"
proof (induction instances arbitrary: sent acc)
  case Nil
  then show ?case by simp
next
  case (Cons it rest)
  show ?case
  proof (cases "RestApiGetBuffer env (''/instances/'' @ it @ ''/file'')")
    case None
    then have "\<not> fetchable env it" by (simp add: fetchable_def)
    then show ?thesis using None Cons.IH by (simp del: StowClient_loop.simps add: StowClient_loop_Cons)
  next
    case (Some dicom)
    then have "fetchable env it" by (simp add: fetchable_def)
    then show ?thesis using Some Cons.IH
      by (simp del: StowClient_loop.simps add: StowClient_loop_Cons split: prod.splits sum.splits)
  qed
qed











subsection \<open>The number of flushes\<close>




subsection \<open>Instances that cannot be fetched\<close>

lemma StowClient_send_filter:
  "StowClient_send cfg env server h q b instances =
   StowClient_send cfg env server h q b (filter (fetchable env) instances)"
  unfolding StowClient_send_def
  by (subst StowClient_loop_filter) (rule refl)

lemma StowClient_send_Nil:
  "StowClient_send cfg env server h q b [] = ([], Inr \<lparr>chunks = [], countInstances = 0\<rparr>)"
  by (auto simp: StowClient_send_def SendStowChunks_def Let_def)

text \<open>
  C10. An instance whose file cannot be fetched is skipped: sending a list of instances does
  exactly what sending its fetchable instances does, so such an instance is in no body
  and causes no exception, and the callback answers \<open>{}\<close> whenever the flushes of the other
  instances succeed. When no instance can be fetched nothing is sent and the answer is \<open>{}\<close>.
\<close>

theorem StowClient_skips_unfetchable:
  "StowClient_send cfg env server h q b instances =
     StowClient_send cfg env server h q b (filter (fetchable env) instances) \<and>
   ((\<forall>it\<in>set instances. \<not> fetchable env it) \<longrightarrow>
      StowClient_send cfg env server h q b instances =
        ([], Inr \<lparr>chunks = [], countInstances = 0\<rparr>)) \<and>
   (length (groups request) = 1 \<and>
    request_method request = OrthancPluginHttpMethod_Post \<and>
    GetServer env (hd (groups request)) = Inr server \<and>
    ParseStowRequest env
      [''Accept'' \<mapsto> ''application/dicom+json'', ''Expect'' \<mapsto> [],
       ''Content-Type'' \<mapsto>
         ''multipart/related; type=application/dicom; boundary='' @ GenerateUuid env]
      Map.empty request = Inr (instances, h, q) \<longrightarrow>
    StowClient cfg env request =
      (case StowClient_send cfg env server h q (GenerateUuid env)
              (filter (fetchable env) instances) of
         (sent, Inl e) \<Rightarrow> (sent, Inl e)
       | (sent, Inr _) \<Rightarrow>
           (sent, Inr (AnswerBuffer (''{}'' @ [CHR 0x0A]) ''application/json''))) \<and>
    ((\<forall>it\<in>set instances. \<not> fetchable env it) \<longrightarrow>
       StowClient cfg env request =
         ([], Inr (AnswerBuffer (''{}'' @ [CHR 0x0A]) ''application/json''))))"
proof -
  have filt: "StowClient_send cfg env server h q b instances =
     StowClient_send cfg env server h q b (filter (fetchable env) instances)" for b
    by (rule StowClient_send_filter)
  have none: "StowClient_send cfg env server h q b instances =
        ([], Inr \<lparr>chunks = [], countInstances = 0\<rparr>)"
    if "\<forall>it\<in>set instances. \<not> fetchable env it" for b
  proof -
    from that have "filter (fetchable env) instances = []" by (simp add: filter_empty_conv)
    with filt [of b] show ?thesis by (simp add: StowClient_send_Nil)
  qed
  have client: "StowClient cfg env request =
      (case StowClient_send cfg env server h q (GenerateUuid env) instances of
         (sent, Inl e) \<Rightarrow> (sent, Inl e)
       | (sent, Inr _) \<Rightarrow>
           (sent, Inr (AnswerBuffer (''{}'' @ [CHR 0x0A]) ''application/json'')))"
    if "length (groups request) = 1" "request_method request = OrthancPluginHttpMethod_Post"
      "GetServer env (hd (groups request)) = Inr server"
      "ParseStowRequest env
        [''Accept'' \<mapsto> ''application/dicom+json'', ''Expect'' \<mapsto> [],
         ''Content-Type'' \<mapsto>
           ''multipart/related; type=application/dicom; boundary='' @ GenerateUuid env]
        Map.empty request = Inr (instances, h, q)"
    using that by (simp add: StowClient_def Let_def split: prod.splits sum.splits)
  show ?thesis
    using filt [of b] none [of b] client filt [of "GenerateUuid env"] none [of "GenerateUuid env"]
    by (auto simp: )
qed

theorem StowClient_skips_unfetchable_witness:
  "StowClient \<lparr>StowMaxInstances = 10, StowMaxSize = 10\<rparr> client_unfetchable request_one_instance =
     ([], Inr (AnswerBuffer (''{}'' @ [CHR 0x0A]) ''application/json''))"
proof -
  have p: "ParseStowRequest client_unfetchable
      [''Accept'' \<mapsto> ''application/dicom+json'', ''Expect'' \<mapsto> [],
       ''Content-Type'' \<mapsto>
         ''multipart/related; type=application/dicom; boundary='' @ GenerateUuid client_unfetchable]
      Map.empty request_one_instance =
      Inr ([''a''],
        [''Accept'' \<mapsto> ''application/dicom+json'', ''Expect'' \<mapsto> [],
         ''Content-Type'' \<mapsto>
         ''multipart/related; type=application/dicom; boundary='' @ GenerateUuid client_unfetchable],
        Map.empty)"
    by (simp add: ParseStowRequest_def client_unfetchable_def request_one_instance_def
          ParseStowRequest_resource_def AddInstance_def)
  have u: "\<forall>it\<in>set [''a'']. \<not> fetchable client_unfetchable it"
    by (simp add: fetchable_def client_unfetchable_def)
  have g: "length (groups request_one_instance) = 1"
    "request_method request_one_instance = OrthancPluginHttpMethod_Post"
    "GetServer client_unfetchable (hd (groups request_one_instance)) = Inr server_one"
    by (simp_all add: request_one_instance_def client_unfetchable_def)
  from StowClient_skips_unfetchable [where cfg = "\<lparr>StowMaxInstances = 10, StowMaxSize = 10\<rparr>"
      and env = client_unfetchable and request = request_one_instance and server = server_one
      and instances = "[''a'']" and q = Map.empty
      and h = "[''Accept'' \<mapsto> ''application/dicom+json'', ''Expect'' \<mapsto> [],
         ''Content-Type'' \<mapsto>
         ''multipart/related; type=application/dicom; boundary='' @ GenerateUuid client_unfetchable]"]
    p u g
  show ?thesis by blast
qed

section \<open>Properties of the STOW-RS server\<close>

subsection \<open>Facts about the data sets and one step of the loop\<close>

lemma map_of_append_None:
  "map_of ds t = None \<Longrightarrow> map_of (ds @ [(t, e)]) t' = (if t' = t then Some e else map_of ds t')"
  by (induction ds) auto

lemma map_of_Insert:
  "map_of (Insert ds t e) t' = (if map_of ds t = None \<and> t' = t then Some e else map_of ds t')"
  by (simp add: Insert_def map_of_append_None del: map_of_append)

lemma keys_Insert: "fst ` set (Insert ds t e) = insert t (fst ` set ds)"
  by (auto simp: Insert_def map_of_eq_None_iff)

lemma distinct_Insert: "distinct (map fst ds) \<Longrightarrow> distinct (map fst (Insert ds t e))"
  by (auto simp: Insert_def map_of_eq_None_iff)

lemma map_of_status_of:
  "map_of (status_of dicom) DICOM_TAG_WARNING_REASON = None"
  "map_of (status_of dicom) DICOM_TAG_FAILURE_REASON = None"
  "map_of (status_of dicom) DICOM_TAG_RETRIEVE_URL = None"
  by (simp_all add: status_of_def SetTag_def map_of_Insert)

lemma StowCallback_item_discard:
  assumes "item_contentType item = [] \<or> item_contentType item = ''application/dicom''"
    and "ParsedDicomFile env item = Inr dicom"
    and "expectedStudy \<noteq> []"
    and "GetRawTagWithDefault dicom DICOM_TAG_STUDY_INSTANCE_UID [] \<noteq> expectedStudy"
  shows "StowCallback_item env wadoBase expectedStudy stored st item =
     (stored, Inr (Inr (st\<lparr>success := success st @
        [SetTag (status_of dicom) DICOM_TAG_WARNING_REASON VR_US ''B006'']\<rparr>)))"
  using assms by (auto simp: StowCallback_item_def status_of_def Let_def)

lemma StowCallback_item_store:
  assumes "item_contentType item = [] \<or> item_contentType item = ''application/dicom''"
    and "ParsedDicomFile env item = Inr dicom"
    and "expectedStudy = [] \<or> GetRawTagWithDefault dicom DICOM_TAG_STUDY_INSTANCE_UID [] = expectedStudy"
  shows "StowCallback_item env wadoBase expectedStudy stored st item =
     (let st1 = stamp wadoBase (GetRawTagWithDefault dicom DICOM_TAG_STUDY_INSTANCE_UID []) st
      in if RestApiPost env stored ''/instances'' (item_data item)
         then (stored @ [item_data item],
               Inr (Inr (st1\<lparr>success := success st1 @
                 [SetTag (status_of dicom) DICOM_TAG_RETRIEVE_URL VR_UT
                    (wadoBase @ ''studies/'' @
                     GetRawTagWithDefault dicom DICOM_TAG_STUDY_INSTANCE_UID [] @ ''/series/'' @
                     GetRawTagWithDefault dicom DICOM_TAG_SERIES_INSTANCE_UID [] @ ''/instances/'' @
                     GetRawTagWithDefault dicom DICOM_TAG_SOP_INSTANCE_UID [])]\<rparr>)))
         else (stored,
               Inr (Inr (st1\<lparr>failed := failed st1 @
                 [SetTag (status_of dicom) DICOM_TAG_FAILURE_REASON VR_US ''0110'']\<rparr>))))"
  using assms by (auto simp: StowCallback_item_def status_of_def stamp_def Let_def)

lemma StowCallback_item_continue:
  assumes "StowCallback_item env wadoBase expectedStudy stored st item = (stored', Inr (Inr st'))"
  obtains dicom where
    "item_contentType item = [] \<or> item_contentType item = ''application/dicom''"
    "ParsedDicomFile env item = Inr dicom"
  using assms by (auto simp: StowCallback_item_def split: if_splits sum.splits)

lemma stamp_fields [simp]:
  "success (stamp w s st) = success st"
  "failed (stamp w s st) = failed st"
  "isFirst (stamp w s st) = False"
  by (simp_all add: stamp_def)

lemma result_stamp:
  "result (stamp w s st) =
     (if isFirst st then SetTag (result st) DICOM_TAG_RETRIEVE_URL VR_UT (w @ ''studies/'' @ s)
      else result st)"
  by (simp add: stamp_def)

lemma StowCallback_item_cases:
  assumes step: "StowCallback_item env w x stored st item = (stored', Inr (Inr st'))"
  obtains
    (discard) rec where "\<not> passes_restriction env x item" "x \<noteq> []"
      "st' = st\<lparr>success := success st @ [rec]\<rparr>" "stored' = stored"
      "map_of rec DICOM_TAG_WARNING_REASON = Some (ByteValue VR_US ''B006'')"
  | (stored) rec where "passes_restriction env x item"
      "st' = (stamp w (study_of env item) st)\<lparr>success := success st @ [rec]\<rparr>"
      "stored' = stored @ [item_data item]" "RestApiPost env stored ''/instances'' (item_data item)"
  | (failed) rec where "passes_restriction env x item"
      "st' = (stamp w (study_of env item) st)\<lparr>failed := failed st @ [rec]\<rparr>"
      "stored' = stored" "\<not> RestApiPost env stored ''/instances'' (item_data item)"
      "map_of rec DICOM_TAG_FAILURE_REASON = Some (ByteValue VR_US ''0110'')"
proof -
  from step obtain dicom where
    ct: "item_contentType item = [] \<or> item_contentType item = ''application/dicom''"
    and p: "ParsedDicomFile env item = Inr dicom"
    by (rule StowCallback_item_continue)
  let ?study = "GetRawTagWithDefault dicom DICOM_TAG_STUDY_INSTANCE_UID []"
  from p have s: "study_of env item = ?study" by (simp add: study_of_def)
  show thesis
  proof (cases "x \<noteq> [] \<and> ?study \<noteq> x")
    case True
    then have "\<not> passes_restriction env x item" by (simp add: passes_restriction_def s)
    moreover from StowCallback_item_discard [OF ct p, of x w stored st] True step
    have "st' = st\<lparr>success := success st @
        [SetTag (status_of dicom) DICOM_TAG_WARNING_REASON VR_US ''B006'']\<rparr>" "stored' = stored"
      by simp_all
    moreover have "map_of (SetTag (status_of dicom) DICOM_TAG_WARNING_REASON VR_US ''B006'')
        DICOM_TAG_WARNING_REASON = Some (ByteValue VR_US ''B006'')"
      by (simp add: SetTag_def map_of_Insert map_of_status_of)
    ultimately show ?thesis using True by (intro discard) auto
  next
    case False
    then have pass: "passes_restriction env x item" by (auto simp: passes_restriction_def s)
    from False have "x = [] \<or> ?study = x" by auto
    note eq = StowCallback_item_store [OF ct p this, of w stored st]
    show ?thesis
    proof (cases "RestApiPost env stored ''/instances'' (item_data item)")
      case True
      with eq step show ?thesis
        by (intro stored [OF pass]) (auto simp: Let_def s)
    next
      case False
      have "map_of (SetTag (status_of dicom) DICOM_TAG_FAILURE_REASON VR_US ''0110'')
          DICOM_TAG_FAILURE_REASON = Some (ByteValue VR_US ''0110'')"
        by (simp add: SetTag_def map_of_Insert map_of_status_of)
      with False eq step show ?thesis
        by (intro failed [OF pass]) (auto simp: Let_def s)
    qed
  qed
qed

subsection \<open>Facts about the loop and the answer of a run that reaches its end\<close>

lemma StowCallback_loop_Cons_continue:
  assumes "StowCallback_loop env w x stored st (item # items) = (stored', Inr (Inr st'))"
  obtains stored1 st1 where
    "StowCallback_item env w x stored st item = (stored1, Inr (Inr st1))"
    "StowCallback_loop env w x stored1 st1 items = (stored', Inr (Inr st'))"
  using assms by (auto split: prod.splits sum.splits)

lemma StowCallback_loop_count:
  "StowCallback_loop env w x stored st items = (stored', Inr (Inr st')) \<Longrightarrow>
   length (success st') + length (failed st') = length (success st) + length (failed st) + length items"
proof (induction items arbitrary: stored st)
  case Nil
  then show ?case by simp
next
  case (Cons item items)
  from Cons.prems obtain stored1 st1 where
    step: "StowCallback_item env w x stored st item = (stored1, Inr (Inr st1))"
    and rest: "StowCallback_loop env w x stored1 st1 items = (stored', Inr (Inr st'))"
    by (rule StowCallback_loop_Cons_continue)
  from step have "length (success st1) + length (failed st1) = length (success st) + length (failed st) + 1"
    by (cases rule: StowCallback_item_cases) simp_all
  with Cons.IH [OF rest] show ?case by simp
qed

lemma StowCallback_loop_not_first:
  "StowCallback_loop env w x stored st items = (stored', Inr (Inr st')) \<Longrightarrow> \<not> isFirst st \<Longrightarrow>
   result st' = result st \<and> \<not> isFirst st'"
proof (induction items arbitrary: stored st)
  case Nil
  then show ?case by simp
next
  case (Cons item items)
  from Cons.prems(1) obtain stored1 st1 where
    step: "StowCallback_item env w x stored st item = (stored1, Inr (Inr st1))"
    and rest: "StowCallback_loop env w x stored1 st1 items = (stored', Inr (Inr st'))"
    by (rule StowCallback_loop_Cons_continue)
  from step Cons.prems(2) have "result st1 = result st \<and> \<not> isFirst st1"
    by (cases rule: StowCallback_item_cases) (simp_all add: result_stamp)
  with Cons.IH [OF rest] show ?case by simp
qed

lemma StowCallback_loop_first:
  "StowCallback_loop env w x stored st items = (stored', Inr (Inr st')) \<Longrightarrow> isFirst st \<Longrightarrow>
   map_of (result st) DICOM_TAG_RETRIEVE_URL = None \<Longrightarrow>
   map_of (result st') DICOM_TAG_RETRIEVE_URL =
     (case find (passes_restriction env x) items of
        None \<Rightarrow> None
      | Some item \<Rightarrow> Some (ByteValue VR_UT (w @ ''studies/'' @ study_of env item)))"
proof (induction items arbitrary: stored st)
  case Nil
  then show ?case by simp
next
  case (Cons item items)
  from Cons.prems(1) obtain stored1 st1 where
    step: "StowCallback_item env w x stored st item = (stored1, Inr (Inr st1))"
    and rest: "StowCallback_loop env w x stored1 st1 items = (stored', Inr (Inr st'))"
    by (rule StowCallback_loop_Cons_continue)
  let ?url = "Some (ByteValue VR_UT (w @ ''studies/'' @ study_of env item))"
  have stamped: "map_of (result (stamp w (study_of env item) st)) DICOM_TAG_RETRIEVE_URL = ?url"
    using Cons.prems(2,3) by (simp add: result_stamp SetTag_def map_of_Insert)
  from step show ?case
  proof (cases rule: StowCallback_item_cases)
    case (discard rec)
    then have "isFirst st1" "map_of (result st1) DICOM_TAG_RETRIEVE_URL = None"
      using Cons.prems(2,3) by simp_all
    from Cons.IH [OF rest this] discard(1) show ?thesis by simp
  next
    case (stored rec)
    then have "\<not> isFirst st1" and "map_of (result st1) DICOM_TAG_RETRIEVE_URL = ?url"
      using stamped by simp_all
    with StowCallback_loop_not_first [OF rest] stored(1) show ?thesis by simp
  next
    case (failed rec)
    then have "\<not> isFirst st1" and "map_of (result st1) DICOM_TAG_RETRIEVE_URL = ?url"
      using stamped by simp_all
    with StowCallback_loop_not_first [OF rest] failed(1) show ?thesis by simp
  qed
qed

lemma StowCallback_loop_keys:
  "StowCallback_loop env w x stored st items = (stored', Inr (Inr st')) \<Longrightarrow>
   fst ` set (result st) \<subseteq> {DICOM_TAG_RETRIEVE_URL} \<Longrightarrow> distinct (map fst (result st)) \<Longrightarrow>
   fst ` set (result st') \<subseteq> {DICOM_TAG_RETRIEVE_URL} \<and> distinct (map fst (result st'))"
proof (induction items arbitrary: stored st)
  case Nil
  then show ?case by simp
next
  case (Cons item items)
  from Cons.prems(1) obtain stored1 st1 where
    step: "StowCallback_item env w x stored st item = (stored1, Inr (Inr st1))"
    and rest: "StowCallback_loop env w x stored1 st1 items = (stored', Inr (Inr st'))"
    by (rule StowCallback_loop_Cons_continue)
  have "fst ` set (result (stamp w s st)) \<subseteq> {DICOM_TAG_RETRIEVE_URL} \<and>
        distinct (map fst (result (stamp w s st)))" for s
    using Cons.prems(2,3) by (simp add: result_stamp SetTag_def keys_Insert distinct_Insert)
  with step Cons.prems(2,3)
  have "fst ` set (result st1) \<subseteq> {DICOM_TAG_RETRIEVE_URL} \<and> distinct (map fst (result st1))"
    by (cases rule: StowCallback_item_cases) simp_all
  with Cons.IH [OF rest] show ?case by simp
qed

lemma StowCallback_answer:
  assumes "StowCallback env request stored = (stored', Inr (AnswerDicom ds isXml))"
  obtains boundary items st where
    "StowCallback_framing env request = Inr boundary"
    "ParseMultipartBody env (request_body request) boundary = Inr items"
    "StowCallback_loop env (GetBaseUrl env request)
       (if length (groups request) = 1 then hd (groups request) else []) stored
       \<lparr>isFirst = True, result = [], success = [], failed = []\<rparr> items = (stored', Inr (Inr st))"
    "ds = SetSequenceTag (SetSequenceTag (result st) DICOM_TAG_FAILED_SOP_SEQUENCE (failed st))
            DICOM_TAG_REFERENCED_SOP_SEQUENCE (success st)"
proof -
  from assms have m: "request_method request = OrthancPluginHttpMethod_Post"
    by (auto simp: StowCallback_def split: if_splits)
  have "StowCallback_framing env request = Inl a \<Longrightarrow> a \<noteq> AnswerDicom ds isXml" for a
    by (auto simp: StowCallback_framing_def split: option.splits prod.splits if_splits)
  with assms m obtain boundary where f: "StowCallback_framing env request = Inr boundary"
    and p: "StowCallback_parts env request stored boundary = (stored', Inr (AnswerDicom ds isXml))"
    by (cases "StowCallback_framing env request") (auto simp: StowCallback_def)
  from p obtain items where i: "ParseMultipartBody env (request_body request) boundary = Inr items"
    by (cases "ParseMultipartBody env (request_body request) boundary")
       (auto simp: StowCallback_parts_def Let_def)
  have no415: "StowCallback_item env w x s t it = (s', Inr (Inl a)) \<Longrightarrow> a = SendHttpStatusCode 415"
    for w x s t it s' a
    by (auto simp: StowCallback_item_def Let_def split: if_splits sum.splits)
  have early: "StowCallback_loop env w x s t its = (s', Inr (Inl a)) \<Longrightarrow> a = SendHttpStatusCode 415"
    for w x s t its s' a
  proof (induction its arbitrary: s t)
    case Nil
    then show ?case by simp
  next
    case (Cons it its)
    then show ?case
      by (auto split: prod.splits sum.splits dest: no415)
  qed
  from p i obtain st where
    "StowCallback_loop env (GetBaseUrl env request)
       (if length (groups request) = 1 then hd (groups request) else []) stored
       \<lparr>isFirst = True, result = [], success = [], failed = []\<rparr> items = (stored', Inr (Inr st))"
    "ds = SetSequenceTag (SetSequenceTag (result st) DICOM_TAG_FAILED_SOP_SEQUENCE (failed st))
            DICOM_TAG_REFERENCED_SOP_SEQUENCE (success st)"
    by (auto simp: StowCallback_parts_def Let_def split: prod.splits sum.splits dest: early)
  with f i show thesis by (rule that)
qed

subsection \<open>The runs on the two concrete parts\<close>

lemmas server_defs = server_env_def request_stow_def stow_header_def item_A_def item_B_def
  tags_A_def tags_B_def StowCallback_def StowCallback_framing_def StowCallback_parts_def
  StowCallback_item_def IsXmlExpected_def SetTag_def SetSequenceTag_def Insert_def
  GetRawTagWithDefault_def Let_def

lemma run_unrestricted:
  "StowCallback server_env (request_stow [] stow_header) [] =
     ([''B''], Inr (AnswerDicom answer_unrestricted False))"
  by (simp add: server_defs answer_unrestricted_def record_A_failed_def record_B_stored_def)

lemma run_study_2:
  "StowCallback server_env (request_stow [''2''] stow_header) [] =
     ([''B''], Inr (AnswerDicom answer_study_2 False))"
  by (simp add: server_defs answer_study_2_def record_A_warning_def record_B_stored_def)

lemma run_study_3:
  "StowCallback server_env (request_stow [''3''] stow_header) [] =
     ([], Inr (AnswerDicom answer_study_3 False))"
  by (simp add: server_defs answer_study_3_def record_A_warning_def record_B_warning_def)

lemma step_A:
  "StowCallback_item server_env ''http://x/'' [] []
     \<lparr>isFirst = True, result = [], success = [], failed = []\<rparr> item_A =
     ([], Inr (Inr state_after_A))"
  by (simp add: server_defs state_after_A_def record_A_failed_def)

subsection \<open>One status item per part\<close>

text \<open>
  C4. When the server answers with the DICOM result, that is, when the loop has processed
  every part, the referenced (success) sequence and the failed sequence of the answer hold
  together as many items as the body has parts; and the processing of one part appends one
  item to exactly one of the two sequences and leaves the other unchanged.
\<close>

theorem StowCallback_one_record_per_part:
  "(StowCallback env request stored = (stored', Inr (AnswerDicom ds isXml)) \<longrightarrow>
      (\<exists>boundary items succ fail.
         StowCallback_framing env request = Inr boundary \<and>
         ParseMultipartBody env (request_body request) boundary = Inr items \<and>
         map_of ds DICOM_TAG_REFERENCED_SOP_SEQUENCE = Some (SequenceOfItems succ) \<and>
         map_of ds DICOM_TAG_FAILED_SOP_SEQUENCE = Some (SequenceOfItems fail) \<and>
         length succ + length fail = length items)) \<and>
   (StowCallback_item env wadoBase expectedStudy stored st item = (stored1, Inr (Inr st1)) \<longrightarrow>
      ((\<exists>rec. success st1 = success st @ [rec] \<and> failed st1 = failed st) \<noteq>
       (\<exists>rec. failed st1 = failed st @ [rec] \<and> success st1 = success st)))"
proof (intro conjI impI)
  assume "StowCallback env request stored = (stored', Inr (AnswerDicom ds isXml))"
  then obtain boundary items st where
    f: "StowCallback_framing env request = Inr boundary"
    and p: "ParseMultipartBody env (request_body request) boundary = Inr items"
    and l: "StowCallback_loop env (GetBaseUrl env request)
       (if length (groups request) = 1 then hd (groups request) else []) stored
       \<lparr>isFirst = True, result = [], success = [], failed = []\<rparr> items = (stored', Inr (Inr st))"
    and ds: "ds = SetSequenceTag (SetSequenceTag (result st) DICOM_TAG_FAILED_SOP_SEQUENCE (failed st))
            DICOM_TAG_REFERENCED_SOP_SEQUENCE (success st)"
    by (rule StowCallback_answer)
  from StowCallback_loop_count [OF l]
  have n: "length (success st) + length (failed st) = length items" by simp
  from StowCallback_loop_keys [OF l]
  have "fst ` set (result st) \<subseteq> {DICOM_TAG_RETRIEVE_URL}" by simp
  then have none: "map_of (result st) DICOM_TAG_FAILED_SOP_SEQUENCE = None"
    "map_of (result st) DICOM_TAG_REFERENCED_SOP_SEQUENCE = None"
    by (auto simp: map_of_eq_None_iff)
  from ds none
  have "map_of ds DICOM_TAG_REFERENCED_SOP_SEQUENCE = Some (SequenceOfItems (success st))"
    "map_of ds DICOM_TAG_FAILED_SOP_SEQUENCE = Some (SequenceOfItems (failed st))"
    by (simp_all add: SetSequenceTag_def map_of_Insert)
  with f p n show "\<exists>boundary items succ fail.
         StowCallback_framing env request = Inr boundary \<and>
         ParseMultipartBody env (request_body request) boundary = Inr items \<and>
         map_of ds DICOM_TAG_REFERENCED_SOP_SEQUENCE = Some (SequenceOfItems succ) \<and>
         map_of ds DICOM_TAG_FAILED_SOP_SEQUENCE = Some (SequenceOfItems fail) \<and>
         length succ + length fail = length items"
    by blast
next
  assume "StowCallback_item env wadoBase expectedStudy stored st item = (stored1, Inr (Inr st1))"
  then show "(\<exists>rec. success st1 = success st @ [rec] \<and> failed st1 = failed st) \<noteq>
       (\<exists>rec. failed st1 = failed st @ [rec] \<and> success st1 = success st)"
    by (cases rule: StowCallback_item_cases) simp_all
qed

theorem StowCallback_one_record_per_part_witness:
  "(\<exists>boundary items succ fail.
      StowCallback_framing server_env (request_stow [] stow_header) = Inr boundary \<and>
      ParseMultipartBody server_env (request_body (request_stow [] stow_header)) boundary =
        Inr items \<and>
      map_of answer_unrestricted DICOM_TAG_REFERENCED_SOP_SEQUENCE = Some (SequenceOfItems succ) \<and>
      map_of answer_unrestricted DICOM_TAG_FAILED_SOP_SEQUENCE = Some (SequenceOfItems fail) \<and>
      length succ + length fail = length items) \<and>
   ((\<exists>rec. success state_after_A = [] @ [rec] \<and> failed state_after_A = []) \<noteq>
    (\<exists>rec. failed state_after_A = [] @ [rec] \<and> success state_after_A = []))"
  using StowCallback_one_record_per_part [THEN conjunct1, rule_format, OF run_unrestricted]
    StowCallback_one_record_per_part [THEN conjunct2, rule_format, OF step_A]
  by simp

subsection \<open>Discarded instances and failed stores\<close>













subsection \<open>The Content-Type header of the request\<close>

text \<open>
  C6 (as amended). The checks on the Content-Type header let the request through, with the
  boundary attribute as parsed, exactly when the media type is \<open>multipart/related\<close>, the
  attribute \<open>type\<close> is \<open>application/dicom\<close> and the attribute \<open>boundary\<close> is present. They answer
  with status 415 exactly when the media type is \<open>multipart/related\<close>, both attributes are
  present and \<open>type\<close> is something else, and with status 400 exactly when the header is
  missing, the media type is not \<open>multipart/related\<close> or one of the two attributes is absent.
  A POST is answered with that status, or goes on to the processing of the parts.
\<close>

theorem StowCallback_framing_status:
  "(StowCallback_framing env request = Inr boundary \<longleftrightarrow>
      (\<exists>header attributes.
         headers request ''content-type'' = Some header \<and>
         ParseContentType env header = (''multipart/related'', attributes) \<and>
         attributes ''type'' = Some ''application/dicom'' \<and>
         attributes ''boundary'' = Some boundary)) \<and>
   (StowCallback_framing env request = Inl (SendHttpStatusCode 415) \<longleftrightarrow>
      (\<exists>header attributes t b.
         headers request ''content-type'' = Some header \<and>
         ParseContentType env header = (''multipart/related'', attributes) \<and>
         attributes ''type'' = Some t \<and> t \<noteq> ''application/dicom'' \<and>
         attributes ''boundary'' = Some b)) \<and>
   (StowCallback_framing env request = Inl (SendHttpStatusCode 400) \<longleftrightarrow>
      (headers request ''content-type'' = None \<or>
       (\<exists>header application attributes.
          headers request ''content-type'' = Some header \<and>
          ParseContentType env header = (application, attributes) \<and>
          (application \<noteq> ''multipart/related'' \<or> attributes ''type'' = None \<or>
           attributes ''boundary'' = None)))) \<and>
   (request_method request = OrthancPluginHttpMethod_Post \<longrightarrow>
      StowCallback env request stored =
        (case StowCallback_framing env request of
           Inl answer \<Rightarrow> (stored, Inr answer)
         | Inr boundary \<Rightarrow> StowCallback_parts env request stored boundary))"
proof (intro conjI)
  show "StowCallback_framing env request = Inr boundary \<longleftrightarrow>
      (\<exists>header attributes.
         headers request ''content-type'' = Some header \<and>
         ParseContentType env header = (''multipart/related'', attributes) \<and>
         attributes ''type'' = Some ''application/dicom'' \<and>
         attributes ''boundary'' = Some boundary)"
  proof (cases "headers request ''content-type''")
    case None
    then show ?thesis by (simp add: StowCallback_framing_def)
  next
    case (Some header)
    obtain application attributes where "ParseContentType env header = (application, attributes)"
      by (cases "ParseContentType env header")
    with Some show ?thesis
      by (auto simp: StowCallback_framing_def)
  qed
  show "StowCallback_framing env request = Inl (SendHttpStatusCode 415) \<longleftrightarrow>
      (\<exists>header attributes t b.
         headers request ''content-type'' = Some header \<and>
         ParseContentType env header = (''multipart/related'', attributes) \<and>
         attributes ''type'' = Some t \<and> t \<noteq> ''application/dicom'' \<and>
         attributes ''boundary'' = Some b)"
  proof (cases "headers request ''content-type''")
    case None
    then show ?thesis by (simp add: StowCallback_framing_def)
  next
    case (Some header)
    obtain application attributes where "ParseContentType env header = (application, attributes)"
      by (cases "ParseContentType env header")
    with Some show ?thesis
      by (auto simp: StowCallback_framing_def)
  qed
  show "StowCallback_framing env request = Inl (SendHttpStatusCode 400) \<longleftrightarrow>
      (headers request ''content-type'' = None \<or>
       (\<exists>header application attributes.
          headers request ''content-type'' = Some header \<and>
          ParseContentType env header = (application, attributes) \<and>
          (application \<noteq> ''multipart/related'' \<or> attributes ''type'' = None \<or>
           attributes ''boundary'' = None)))"
  proof (cases "headers request ''content-type''")
    case None
    then show ?thesis by (simp add: StowCallback_framing_def)
  next
    case (Some header)
    obtain application attributes where "ParseContentType env header = (application, attributes)"
      by (cases "ParseContentType env header")
    with Some show ?thesis
      by (auto simp: StowCallback_framing_def)
  qed
  show "request_method request = OrthancPluginHttpMethod_Post \<longrightarrow>
      StowCallback env request stored =
        (case StowCallback_framing env request of
           Inl answer \<Rightarrow> (stored, Inr answer)
         | Inr boundary \<Rightarrow> StowCallback_parts env request stored boundary)"
    by (simp add: StowCallback_def)
qed

theorem StowCallback_framing_status_witness:
  "StowCallback server_env (request_stow [] stow_header) [] =
     (case StowCallback_framing server_env (request_stow [] stow_header) of
        Inl answer \<Rightarrow> ([], Inr answer)
      | Inr boundary \<Rightarrow> StowCallback_parts server_env (request_stow [] stow_header) [] boundary)"
proof -
  have "request_method (request_stow [] stow_header) = OrthancPluginHttpMethod_Post"
    by (simp add: request_stow_def)
  with StowCallback_framing_status [of server_env "request_stow [] stow_header" "''b''" "[]"]
  show ?thesis by blast
qed

text \<open>A request with the Content-Type \<open>text/plain\<close> is answered with status 400, not 415.\<close>

theorem StowCallback_framing_status_counterexample:
  "StowCallback server_env (request_stow [] ''text/plain'') [] =
     ([], Inr (SendHttpStatusCode 400)) \<and>
   StowCallback server_env (request_stow [] ''text/plain'') [] \<noteq>
     ([], Inr (SendHttpStatusCode 415))"
  by (simp add: server_defs)

subsection \<open>The retrieve URL of the result\<close>

text \<open>
  C9 (as amended). In the answer of a run that has processed every part, each tag occurs at
  most once, and the retrieve URL of the result is that of the study of the first part that
  passes the study restriction, whether the store accepts that part or not; it is absent
  when no part passes the restriction.
\<close>

theorem StowCallback_retrieve_url:
  assumes "StowCallback env request stored = (stored', Inr (AnswerDicom ds isXml))"
  shows "\<exists>boundary items.
           StowCallback_framing env request = Inr boundary \<and>
           ParseMultipartBody env (request_body request) boundary = Inr items \<and>
           map_of ds DICOM_TAG_RETRIEVE_URL =
             (case find (passes_restriction env
                           (if length (groups request) = 1 then hd (groups request) else []))
                     items of
                None \<Rightarrow> None
              | Some item \<Rightarrow>
                  Some (ByteValue VR_UT (GetBaseUrl env request @ ''studies/'' @ study_of env item))) \<and>
           distinct (map fst ds)"
proof -
  let ?x = "if length (groups request) = 1 then hd (groups request) else []"
  from assms obtain boundary items st where
    f: "StowCallback_framing env request = Inr boundary"
    and p: "ParseMultipartBody env (request_body request) boundary = Inr items"
    and l: "StowCallback_loop env (GetBaseUrl env request) ?x stored
       \<lparr>isFirst = True, result = [], success = [], failed = []\<rparr> items = (stored', Inr (Inr st))"
    and ds: "ds = SetSequenceTag (SetSequenceTag (result st) DICOM_TAG_FAILED_SOP_SEQUENCE (failed st))
            DICOM_TAG_REFERENCED_SOP_SEQUENCE (success st)"
    by (rule StowCallback_answer)
  from StowCallback_loop_first [OF l]
  have url: "map_of (result st) DICOM_TAG_RETRIEVE_URL =
     (case find (passes_restriction env ?x) items of
        None \<Rightarrow> None
      | Some item \<Rightarrow> Some (ByteValue VR_UT (GetBaseUrl env request @ ''studies/'' @ study_of env item)))"
    by simp
  from StowCallback_loop_keys [OF l] have d: "distinct (map fst (result st))" by simp
  from ds have "map_of ds DICOM_TAG_RETRIEVE_URL = map_of (result st) DICOM_TAG_RETRIEVE_URL"
    by (simp add: SetSequenceTag_def map_of_Insert)
  moreover from ds d have "distinct (map fst ds)"
    by (simp add: SetSequenceTag_def distinct_Insert)
  ultimately show ?thesis using f p url by auto
qed

theorem StowCallback_retrieve_url_witness:
  "\<exists>boundary items.
     StowCallback_framing server_env (request_stow [''2''] stow_header) = Inr boundary \<and>
     ParseMultipartBody server_env (request_body (request_stow [''2''] stow_header)) boundary =
       Inr items \<and>
     map_of answer_study_2 DICOM_TAG_RETRIEVE_URL =
       (case find (passes_restriction server_env
                     (if length (groups (request_stow [''2''] stow_header)) = 1
                      then hd (groups (request_stow [''2''] stow_header)) else []))
               items of
          None \<Rightarrow> None
        | Some item \<Rightarrow>
            Some (ByteValue VR_UT (GetBaseUrl server_env (request_stow [''2''] stow_header) @
                    ''studies/'' @ study_of server_env item))) \<and>
     distinct (map fst answer_study_2)"
  by (rule StowCallback_retrieve_url [OF run_study_2])

text \<open>
  Without restriction, when the store refuses \<open>A\<close> (study 1) and accepts \<open>B\<close> (study 2), the
  retrieve URL of the result is that of study 1, although the first instance stored is of
  study 2. With a restriction to study 3 both parts are discarded and the result has no
  retrieve URL.
\<close>

theorem StowCallback_retrieve_url_counterexample:
  "StowCallback server_env (request_stow [] stow_header) [] =
     ([''B''], Inr (AnswerDicom answer_unrestricted False)) \<and>
   map_of answer_unrestricted DICOM_TAG_RETRIEVE_URL =
     Some (ByteValue VR_UT ''http://x/studies/1'') \<and>
   map_of answer_unrestricted DICOM_TAG_FAILED_SOP_SEQUENCE =
     Some (SequenceOfItems [record_A_failed]) \<and>
   map_of answer_unrestricted DICOM_TAG_REFERENCED_SOP_SEQUENCE =
     Some (SequenceOfItems [record_B_stored]) \<and>
   study_of server_env item_B = ''2'' \<and>
   StowCallback server_env (request_stow [''3''] stow_header) [] =
     ([], Inr (AnswerDicom answer_study_3 False)) \<and>
   map_of answer_study_3 DICOM_TAG_RETRIEVE_URL = None"
proof -
  have "study_of server_env item_B = ''2''"
    by (simp add: study_of_def server_env_def item_B_def tags_B_def GetRawTagWithDefault_def)
  moreover have "map_of answer_unrestricted DICOM_TAG_RETRIEVE_URL =
      Some (ByteValue VR_UT ''http://x/studies/1'')"
    "map_of answer_unrestricted DICOM_TAG_FAILED_SOP_SEQUENCE =
      Some (SequenceOfItems [record_A_failed])"
    "map_of answer_unrestricted DICOM_TAG_REFERENCED_SOP_SEQUENCE =
      Some (SequenceOfItems [record_B_stored])"
    by (simp_all add: answer_unrestricted_def)
  moreover have "map_of answer_study_3 DICOM_TAG_RETRIEVE_URL = None"
    by (simp add: answer_study_3_def)
  ultimately show ?thesis using run_unrestricted run_study_3 by blast
qed

end
